theory Spec2Isabelle
  imports Main "HOL-Library.AList" "HOL-Library.FSet" "HOL-Library.List_Lexorder"
    "HOL-Library.Multiset"
begin

section \<open>JavaScript values the screens compute with\<close>

text \<open>
  Slot counts and levels are JavaScript numbers. The model keeps the integers and the one
  non-integer value the code can produce from them: \<open>NaN\<close>, which is what arithmetic on
  \<open>undefined\<close> (a read past the end of an array) and \<open>parseInt\<close> of a non-numeric key give.
\<close>

datatype jsnum = Num int | NaN

fun js_add :: "jsnum \<Rightarrow> jsnum \<Rightarrow> jsnum" where
  "js_add (Num a) (Num b) = Num (a + b)"
| "js_add _ _ = NaN"

fun js_sub :: "jsnum \<Rightarrow> jsnum \<Rightarrow> jsnum" where
  "js_sub (Num a) (Num b) = Num (a - b)"
| "js_sub _ _ = NaN"

text \<open>\<open>Math.max\<close> and \<open>Math.min\<close> return \<open>NaN\<close> as soon as one argument is \<open>NaN\<close>.\<close>

fun Math_max :: "jsnum \<Rightarrow> jsnum \<Rightarrow> jsnum" where
  "Math_max (Num a) (Num b) = Num (max a b)"
| "Math_max _ _ = NaN"

fun Math_min :: "jsnum \<Rightarrow> jsnum \<Rightarrow> jsnum" where
  "Math_min (Num a) (Num b) = Num (min a b)"
| "Math_min _ _ = NaN"

text \<open>
  \<open>xs[i]\<close> in a numeric position: past the end the read is \<open>undefined\<close>, which arithmetic,
  \<open>Math.min\<close> and \<open>Math.max\<close> turn into \<open>NaN\<close>.
\<close>

definition arr_get :: "jsnum list \<Rightarrow> nat \<Rightarrow> jsnum" where
  "arr_get xs i = (if i < length xs then xs ! i else NaN)"

text \<open>\<open>xs[i] = v\<close>: an assignment past the end extends the array (the holes read as above).\<close>

definition arr_set :: "jsnum list \<Rightarrow> nat \<Rightarrow> jsnum \<Rightarrow> jsnum list" where
  "arr_set xs i v =
     (if i < length xs then xs[i := v] else xs @ replicate (i - length xs) NaN @ [v])"

text \<open>
  The functions of the JavaScript runtime whose result depends on Unicode tables, on the
  locale or on number formatting are parameters of the model, so that every theorem below
  holds for whatever the runtime computes.
\<close>

record platform =
  toLowerCase :: "string \<Rightarrow> string"
  trim :: "string \<Rightarrow> string"
  localeCompare :: "string \<Rightarrow> string \<Rightarrow> int"
  toString :: "jsnum \<Rightarrow> string"
  parseInt :: "string \<Rightarrow> jsnum"
  isWeb :: bool

section \<open>Reference data and characters\<close>

record spell =
  spell_id :: string
  name :: string
  level :: int
  school :: "string option"
  classes :: "string option list option"
  subclasses :: "string list option"

datatype subclass_entry = SubclassName string | SubclassObject "string option" | SubclassNull

record dnd_class =
  cls_name :: "string option"
  cls_subclasses :: "subclass_entry list option"
  spellcasting :: bool

text \<open>A known spell is a bare name or an object carrying name and level.\<close>

datatype known_spell = KnownName string | KnownObject string int

text \<open>
  A value stored under a level key of \<open>spell_slots\<close>: an array of numbers, or anything
  that \<open>Array.isArray\<close> rejects.
\<close>

datatype slot_value = SlotArray "jsnum list" | NotArray

text \<open>
  \<open>spell_slots\<close> is an object keyed by the level written as a string; the association
  list keeps the order of \<open>Object.entries\<close>. \<open>None\<close> is \<open>null\<close> or \<open>undefined\<close>.
\<close>

type_synonym slot_object = "(string \<times> slot_value) list"

record character =
  char_id :: string
  char_name :: string
  class_name :: string
  char_level :: int
  hp_current :: int
  hp_max :: int
  spell_slots :: "slot_object option"
  spells_known :: "known_spell list option"

section \<open>Slot adjuster (GrimoireTab.updateSpellSlot)\<close>

datatype slot_field = Current | Max

text \<open>
  The arithmetic on the copied pair:
  \<^verbatim>\<open>
  if (type === 'current') {
    slots[0] = Math.max(0, Math.min(slots[1], slots[0] + delta));
  } else {
    slots[1] = Math.max(0, slots[1] + delta);
    slots[0] = Math.min(slots[0], slots[1]);
  }\<close>
\<close>

definition adjust_slots :: "slot_field \<Rightarrow> jsnum \<Rightarrow> jsnum list \<Rightarrow> jsnum list" where
  "adjust_slots type delta slots =
     (case type of
        Current \<Rightarrow>
          arr_set slots 0
            (Math_max (Num 0) (Math_min (arr_get slots 1) (js_add (arr_get slots 0) delta)))
      | Max \<Rightarrow>
          (let slots1 = arr_set slots 1 (Math_max (Num 0) (js_add (arr_get slots 1) delta))
           in arr_set slots1 0 (Math_min (arr_get slots1 0) (arr_get slots1 1))))"

text \<open>
  The slot object that is sent to the store: a copy of the character's \<open>spell_slots\<close>
  (\<open>{ ...spell_slots }\<close>, empty for \<open>null\<close>) with the pair at \<open>level.toString()\<close>
  replaced. \<open>None\<close> when the key is absent or its value is no array: the handler then
  does nothing.
\<close>

definition updated_slots ::
  "platform \<Rightarrow> character \<Rightarrow> jsnum \<Rightarrow> slot_field \<Rightarrow> jsnum \<Rightarrow> slot_object option" where
  "updated_slots P c lvl type delta =
     (let currentSlots = (case spell_slots c of None \<Rightarrow> [] | Some m \<Rightarrow> m);
          levelKey = toString P lvl
      in case map_of currentSlots levelKey of
           Some (SlotArray slots) \<Rightarrow>
             Some (AList.update levelKey (SlotArray (adjust_slots type delta slots)) currentSlots)
         | _ \<Rightarrow> None)"

section \<open>Sorting with a comparator\<close>

text \<open>
  \<open>Array.prototype.sort(compare)\<close> is stable, and a comparator result that is \<open>NaN\<close>
  counts as \<open>+0\<close>. For a consistent comparator every stable sort returns the same array,
  so the insertion sort below is the result; for an inconsistent one the order is
  implementation-defined, and the model is one of the permitted outcomes.
\<close>

fun positive :: "jsnum \<Rightarrow> bool" where
  "positive (Num n) = (0 < n)"
| "positive NaN = False"

fun sort_insert :: "('a \<Rightarrow> 'a \<Rightarrow> jsnum) \<Rightarrow> 'a \<Rightarrow> 'a list \<Rightarrow> 'a list" where
  "sort_insert cmp x [] = [x]"
| "sort_insert cmp x (y # ys) =
     (if positive (cmp x y) then y # sort_insert cmp x ys else x # y # ys)"

definition js_sort :: "('a \<Rightarrow> 'a \<Rightarrow> jsnum) \<Rightarrow> 'a list \<Rightarrow> 'a list" where
  "js_sort cmp xs = foldr (sort_insert cmp) xs []"

section \<open>Grimoire aggregator (GrimoireTab.prepareCharacterSpells)\<close>

record slot_info =
  slot_current :: jsnum
  slot_max :: jsnum
  slot_level :: jsnum

record character_spells =
  cs_character :: character
  cs_spells :: "spell list"
  spellsByLevel :: "(int \<times> spell list) list"
  spellSlots :: "slot_info list"
  characterClass :: "dnd_class option"

definition getSpellByName :: "spell list \<Rightarrow> string \<Rightarrow> spell option" where
  "getSpellByName allSpells spellName = find (\<lambda>spell. name spell = spellName) allSpells"

fun known_name :: "known_spell \<Rightarrow> string" where
  "known_name (KnownName n) = n"
| "known_name (KnownObject n l) = n"

text \<open>The \<open>forEach\<close> over the known spells: a spell is pushed when the catalog has its name.\<close>

definition resolve_known :: "spell list \<Rightarrow> known_spell list \<Rightarrow> spell list" where
  "resolve_known allSpells knownSpellNames =
     concat (map (\<lambda>spellData.
        case getSpellByName allSpells (known_name spellData) of
          None \<Rightarrow> [] | Some spell \<Rightarrow> [spell]) knownSpellNames)"

text \<open>
  \<open>spellsByLevel\<close> is a \<open>Record<number, Spell[]>\<close>; the association list keeps the keys in
  the order of their first use. A missing bucket is created empty before the push.
\<close>

definition push_by_level :: "(int \<times> spell list) list \<Rightarrow> spell \<Rightarrow> (int \<times> spell list) list" where
  "push_by_level m spell =
     (let bucket = (case map_of m (level spell) of None \<Rightarrow> [] | Some l \<Rightarrow> l)
      in AList.update (level spell) (bucket @ [spell]) m)"

definition group_by_level :: "spell list \<Rightarrow> (int \<times> spell list) list" where
  "group_by_level spells = foldl push_by_level [] spells"

definition compare_name :: "platform \<Rightarrow> spell \<Rightarrow> spell \<Rightarrow> jsnum" where
  "compare_name P a b = Num (localeCompare P (name a) (name b))"

text \<open>
  Every bucket is sorted in place. The source reaches the bucket of key \<open>level\<close> as
  \<open>spellsByLevel[parseInt(level)]\<close>, which is the same bucket for the integer levels of
  the model.
\<close>

definition sort_buckets :: "platform \<Rightarrow> (int \<times> spell list) list \<Rightarrow> (int \<times> spell list) list" where
  "sort_buckets P m = map (\<lambda>(l, bucket). (l, js_sort (compare_name P) bucket)) m"

text \<open>An entry of \<open>spell_slots\<close> gives a slot summary when it is an array of length at least 2.\<close>

fun slot_entry :: "platform \<Rightarrow> string \<times> slot_value \<Rightarrow> slot_info list" where
  "slot_entry P (lvl, SlotArray slots) =
     (if 2 \<le> length slots
      then [\<lparr>slot_current = slots ! 0, slot_max = slots ! 1, slot_level = parseInt P lvl\<rparr>]
      else [])"
| "slot_entry P (lvl, NotArray) = []"

definition compare_slot_level :: "slot_info \<Rightarrow> slot_info \<Rightarrow> jsnum" where
  "compare_slot_level a b = js_sub (slot_level a) (slot_level b)"

definition prepareCharacterSpells ::
  "platform \<Rightarrow> dnd_class list \<Rightarrow> spell list \<Rightarrow> character \<Rightarrow> character_spells" where
  "prepareCharacterSpells P classesData allSpells c =
     (let cls = find (\<lambda>cls. cls_name cls = Some (class_name c)) classesData;
          knownSpellNames = (case spells_known c of None \<Rightarrow> [] | Some ks \<Rightarrow> ks);
          spells = resolve_known allSpells knownSpellNames;
          byLevel = sort_buckets P (group_by_level spells);
          slots = (case spell_slots c of None \<Rightarrow> []
                   | Some m \<Rightarrow> concat (map (slot_entry P) m))
      in \<lparr>cs_character = c, cs_spells = spells, spellsByLevel = byLevel,
          spellSlots = js_sort compare_slot_level slots, characterClass = cls\<rparr>)"

section \<open>The slot adjuster's request and state update\<close>

text \<open>The value of a field of a request body, before \<open>JSON.stringify\<close>.\<close>

datatype body_value = SlotsValue slot_object | KnownValue "known_spell list"

record request =
  req_method :: string
  req_url :: string
  req_headers :: "(string \<times> string) list"
  req_body :: "(string \<times> body_value) list"

record session =
  access_token :: string

text \<open>A promise either rejects (the \<open>await\<close> throws) or resolves to a value.\<close>

datatype 'a outcome = Throws | Returns 'a

text \<open>
  A response has its \<open>ok\<close> flag and the value \<open>response.json()\<close> resolves to
  (\<open>None\<close> when \<open>json()\<close> rejects).
\<close>

datatype 'a response = Response bool "'a option"

datatype title = Erro | Aviso | Sucesso

text \<open>
  The messages of the alerts, with the source's text (diacritics dropped):
  \<^item> \<open>NeedsAuth\<close>: ``Voce precisa estar autenticado.'';
  \<^item> \<open>SlotsNotUpdated\<close>: ``Nao foi possivel atualizar os espacos de magia.'';
  \<^item> \<open>SlotsUpdateError\<close>: ``Erro ao atualizar espacos de magia.'';
  \<^item> \<open>NoCharacterSelected\<close>: ``Nenhum personagem selecionado.'';
  \<^item> \<open>AllAlreadyKnown\<close>: ``Todas as magias selecionadas ja estao no grimorio do
    personagem.'';
  \<^item> \<open>SpellsNotAdded\<close>: ``Nao foi possivel adicionar as magias ao grimorio.'';
  \<^item> \<open>SpellsAddError\<close>: ``Erro ao adicionar magias ao grimorio.'';
  \<^item> \<open>SpellsAdded n\<close>: ``n magia(s) adicionada(s) ao grimorio de'' followed by the name;
  \<^item> \<open>NeedsAuthToDelete\<close>: ``Voce precisa estar autenticado para excluir personagens.'';
  \<^item> \<open>NotDeleted\<close>: ``Nao foi possivel excluir o personagem.'';
  \<^item> \<open>NotDeletedRetry\<close>: ``Nao foi possivel excluir o personagem. Tente novamente.'';
  \<^item> \<open>Deleted\<close>: ``Personagem excluido com sucesso!'';
  \<^item> \<open>DeleteUnexpected\<close>: ``Erro inesperado ao excluir personagem.''.
\<close>

datatype message =
    NeedsAuth | SlotsNotUpdated | SlotsUpdateError
  | NoCharacterSelected | AllAlreadyKnown | SpellsNotAdded | SpellsAddError | SpellsAdded nat
  | NeedsAuthToDelete | NotDeleted | NotDeletedRetry | Deleted | DeleteUnexpected

text \<open>
  What a handler does to the outside: \<open>Alert.alert(title, message)\<close>, the browser's
  \<open>alert(`title: message`)\<close>, a \<open>fetch\<close>, a deletion through the supabase client.
\<close>

datatype effect =
    AlertAlert title message
  | WebAlert title message
  | Fetch request
  | SupabaseDelete string string

record grimoire_state =
  characters :: "character list"
  selectedCharacter :: "character_spells option"
  loading :: bool
  refreshing :: bool
  allSpells :: "spell list"

record grimoire_env =
  classesData :: "dnd_class list"
  getSession :: "session option outcome"
  fetch :: "request \<Rightarrow> character response outcome"

definition slot_request :: "session \<Rightarrow> character \<Rightarrow> slot_object \<Rightarrow> request" where
  "slot_request sess c currentSlots =
     \<lparr>req_method = ''PUT'',
      req_url = ''/api/characters/'' @ char_id c,
      req_headers = [(''Authorization'', ''Bearer '' @ access_token sess),
                     (''Content-Type'', ''application/json'')],
      req_body = [(''spell_slots'', SlotsValue currentSlots)]\<rparr>"

text \<open>
  One run of the handler on the state of the render it was created in. The result is the
  next state and the effects in order. Every \<open>throw\<close> inside the \<open>try\<close> ends in the
  \<open>catch\<close>, which alerts \<open>SlotsUpdateError\<close>.
\<close>

definition updateSpellSlot ::
  "platform \<Rightarrow> grimoire_env \<Rightarrow> grimoire_state \<Rightarrow> jsnum \<Rightarrow> slot_field \<Rightarrow> jsnum
     \<Rightarrow> grimoire_state \<times> effect list" where
  "updateSpellSlot P E s lvl type delta =
     (case selectedCharacter s of
        None \<Rightarrow> (s, [])
      | Some sel \<Rightarrow>
         (case getSession E of
            Throws \<Rightarrow> (s, [AlertAlert Erro SlotsUpdateError])
          | Returns None \<Rightarrow> (s, [AlertAlert Erro NeedsAuth])
          | Returns (Some sess) \<Rightarrow>
             (case updated_slots P (cs_character sel) lvl type delta of
                None \<Rightarrow> (s, [])
              | Some currentSlots \<Rightarrow>
                 (let req = slot_request sess (cs_character sel) currentSlots in
                  case fetch E req of
                    Throws \<Rightarrow> (s, [Fetch req, AlertAlert Erro SlotsUpdateError])
                  | Returns (Response False body) \<Rightarrow>
                      (s, [Fetch req, AlertAlert Erro SlotsNotUpdated])
                  | Returns (Response True None) \<Rightarrow>
                      (s, [Fetch req, AlertAlert Erro SlotsUpdateError])
                  | Returns (Response True (Some updatedCharacter)) \<Rightarrow>
                      (s\<lparr>characters :=
                           map (\<lambda>char. if char_id char = char_id (cs_character sel)
                                        then updatedCharacter else char) (characters s),
                         selectedCharacter :=
                           Some (prepareCharacterSpells P (classesData E) (allSpells s)
                                   updatedCharacter)\<rparr>,
                       [Fetch req])))))"

section \<open>Spell selection (SpellSelectionModal)\<close>

subsection \<open>Catalog loader (classSpells)\<close>

text \<open>
  What \<open>localStorage.getItem('customSpells')\<close> followed by \<open>JSON.parse\<close> gives:
  \<^item> \<open>StoredNone\<close>: no item, or the empty text (both falsy);
  \<^item> \<open>StoredThrows\<close>: \<open>JSON.parse\<close> throws, or parses to a value that is no array, on which
    the later \<open>.length\<close> or \<open>.filter\<close> throws;
  \<^item> \<open>StoredArray\<close>: an array of spells (a text that parses to the empty string has
    length 0 as well and behaves as the empty array).
\<close>

datatype stored_spells = StoredNone | StoredThrows | StoredArray "spell list"

text \<open>
  \<open>adaptedSpells\<close> is the outcome of loading the alternate dataset and running
  \<open>adaptSpellsFromLivroDoJogador\<close> on it (\<open>Returns None\<close> for \<open>null\<close> or \<open>undefined\<close>);
  \<open>defaultSpells\<close> is \<open>data/spells.json\<close>.
\<close>

record catalog_env =
  storedSpells :: stored_spells
  adaptedSpells :: "spell list option outcome"
  defaultSpells :: "spell list"

definition default_or_adapted :: "catalog_env \<Rightarrow> spell list" where
  "default_or_adapted E =
     (case adaptedSpells E of
        Returns (Some adapted) \<Rightarrow> if 0 < length adapted then adapted else defaultSpells E
      | Returns None \<Rightarrow> defaultSpells E
      | Throws \<Rightarrow> defaultSpells E)"

definition load_spells_data :: "platform \<Rightarrow> catalog_env \<Rightarrow> spell list outcome" where
  "load_spells_data P E =
     (case (if isWeb P then storedSpells E else StoredNone) of
        StoredThrows \<Rightarrow> Throws
      | StoredNone \<Rightarrow> Returns (default_or_adapted E)
      | StoredArray spellsData \<Rightarrow>
          Returns (if length spellsData = 0 then default_or_adapted E else spellsData))"

definition isClassSpell :: "platform \<Rightarrow> string \<Rightarrow> spell \<Rightarrow> bool" where
  "isClassSpell P characterClassName spell =
     (case classes spell of
        None \<Rightarrow> False
      | Some cs \<Rightarrow>
          list_ex (\<lambda>className.
            case className of
              None \<Rightarrow> False
            | Some cn \<Rightarrow> cn \<noteq> [] \<and>
                toLowerCase P (trim P cn) = toLowerCase P characterClassName) cs)"

fun subclass_matches :: "platform \<Rightarrow> string \<Rightarrow> subclass_entry \<Rightarrow> bool" where
  "subclass_matches P subclass (SubclassName n) = (toLowerCase P n = toLowerCase P subclass)"
| "subclass_matches P subclass (SubclassObject None) = False"
| "subclass_matches P subclass (SubclassObject (Some n)) =
     (n \<noteq> [] \<and> toLowerCase P n = toLowerCase P subclass)"
| "subclass_matches P subclass SubclassNull = False"

definition isSubclassSpell :: "platform \<Rightarrow> dnd_class \<Rightarrow> spell \<Rightarrow> bool" where
  "isSubclassSpell P charClass spell =
     (case subclasses spell of
        None \<Rightarrow> False
      | Some subs \<Rightarrow>
          (case cls_subclasses charClass of
             None \<Rightarrow> False
           | Some classSubs \<Rightarrow>
               list_ex (\<lambda>subclass. list_ex (subclass_matches P subclass) classSubs) subs))"

text \<open>
  \<open>None\<close> is an absent class; an absent or empty name is falsy. An exception anywhere in
  the \<open>try\<close> gives the empty list.
\<close>

definition classSpells :: "platform \<Rightarrow> catalog_env \<Rightarrow> dnd_class option \<Rightarrow> spell list" where
  "classSpells P E charClass =
     (case charClass of
        None \<Rightarrow> []
      | Some C \<Rightarrow>
          (case cls_name C of
             None \<Rightarrow> []
           | Some cname \<Rightarrow>
               if cname = [] then []
               else (case load_spells_data P E of
                       Throws \<Rightarrow> []
                     | Returns spellsData \<Rightarrow>
                         filter (\<lambda>spell. isClassSpell P cname spell \<or> isSubclassSpell P C spell)
                           spellsData)))"

subsection \<open>Filter and sort (filteredAndSortedSpells)\<close>

text \<open>\<open>s.includes(t)\<close>: \<open>t\<close> occurs in \<open>s\<close> as a contiguous run.\<close>

fun str_includes :: "string \<Rightarrow> string \<Rightarrow> bool" where
  "str_includes [] t = (t = [])"
| "str_includes (c # s) t = (take (length t) (c # s) = t \<or> str_includes s t)"

definition matchesSearch :: "platform \<Rightarrow> string \<Rightarrow> spell \<Rightarrow> bool" where
  "matchesSearch P searchText spell =
     (searchText = [] \<or> str_includes (toLowerCase P (name spell)) (toLowerCase P searchText))"

text \<open>\<open>selectedSchool\<close> is a string or \<open>null\<close>; the empty string is falsy as well.\<close>

definition matchesSchool :: "platform \<Rightarrow> string option \<Rightarrow> spell \<Rightarrow> bool" where
  "matchesSchool P selectedSchool spell =
     (case selectedSchool of
        None \<Rightarrow> True
      | Some sel \<Rightarrow>
          if sel = [] then True
          else (case school spell of
                  None \<Rightarrow> False
                | Some sch \<Rightarrow> sch \<noteq> [] \<and> toLowerCase P (trim P sch) = toLowerCase P sel))"

definition compare_level_name :: "platform \<Rightarrow> spell \<Rightarrow> spell \<Rightarrow> jsnum" where
  "compare_level_name P a b =
     (if level a \<noteq> level b then Num (level a - level b)
      else Num (localeCompare P (name a) (name b)))"

definition filteredAndSortedSpells ::
  "platform \<Rightarrow> spell list \<Rightarrow> string \<Rightarrow> string option \<Rightarrow> spell list" where
  "filteredAndSortedSpells P spells searchText selectedSchool =
     js_sort (compare_level_name P)
       (filter (\<lambda>spell. matchesSearch P searchText spell \<and> matchesSchool P selectedSchool spell)
          spells)"

subsection \<open>Presentation builder (listItems)\<close>

datatype list_item = HeaderItem int | SpellItem spell

fun item_id :: "platform \<Rightarrow> list_item \<Rightarrow> string" where
  "item_id P (HeaderItem l) = ''header-'' @ toString P (Num l)"
| "item_id P (SpellItem spell) = spell_id spell"



subsection \<open>Selection (handleSelectAll)\<close>

definition handleSelectAll :: "string fset \<Rightarrow> spell list \<Rightarrow> string fset" where
  "handleSelectAll selectedSpells filtered =
     (if fcard selectedSpells = length filtered then {||}
      else fset_of_list (map spell_id filtered))"

section \<open>Character list (CharactersTab)\<close>

record user =
  user_id :: string

record characters_state =
  ct_characters :: "character list"
  ct_selectedCharacter :: "character option"
  spellSelectionCharacter :: "character option"
  ct_loading :: bool
  ct_refreshing :: bool
  ct_user :: "user option"

text \<open>
  The outside of the screen during one run of a handler:
  \<^item> \<open>ct_getSession\<close>: what \<open>supabase.auth.getSession()\<close> resolves to;
  \<^item> \<open>supabase_delete id uid\<close>: the \<open>error\<close> of the deletion (\<open>Returns None\<close> when the
    deletion succeeded);
  \<^item> \<open>global_response\<close>: what the identifier \<open>response\<close> evaluates to inside
    \<open>handleDeleteCharacter\<close>. Neither the handler, nor the component, nor the module
    declares it, so it is looked up in the global object: \<open>None\<close> when that has no such
    property (the evaluation throws a \<open>ReferenceError\<close>), \<open>Some ok\<close> for a response
    object with that \<open>ok\<close> flag;
  \<^item> \<open>fetch_list\<close>, \<open>fetch_put\<close>: the store's answers.
\<close>

record characters_env =
  ct_getSession :: "session option outcome"
  supabase_delete :: "string \<Rightarrow> string \<Rightarrow> string option outcome"
  global_response :: "bool option"
  fetch_list :: "request \<Rightarrow> character list response outcome"
  fetch_put :: "request \<Rightarrow> character response outcome"

text \<open>\<open>Platform.OS === 'web' ? alert(...) : Alert.alert(...)\<close>\<close>

definition notify :: "platform \<Rightarrow> title \<Rightarrow> message \<Rightarrow> effect" where
  "notify P t m = (if isWeb P then WebAlert t m else AlertAlert t m)"

definition list_request :: "session \<Rightarrow> request" where
  "list_request sess =
     \<lparr>req_method = ''GET'',
      req_url = ''/api/characters'',
      req_headers = [(''Authorization'', ''Bearer '' @ access_token sess)],
      req_body = []\<rparr>"

definition finally_loaded :: "characters_state \<Rightarrow> characters_state" where
  "finally_loaded t = t\<lparr>ct_loading := False, ct_refreshing := False\<rparr>"

text \<open>
  \<open>loadCharacters\<close>. \<open>snap\<close> is the state of the render whose closure runs (the handler
  reads \<open>selectedCharacter\<close> there), \<open>t\<close> the state the setters act on.
\<close>

definition loadCharacters ::
  "characters_env \<Rightarrow> characters_state \<Rightarrow> characters_state
     \<Rightarrow> characters_state \<times> effect list" where
  "loadCharacters E snap t =
     (case ct_getSession E of
        Throws \<Rightarrow> (finally_loaded t, [])
      | Returns None \<Rightarrow> (finally_loaded t, [])
      | Returns (Some sess) \<Rightarrow>
          (case fetch_list E (list_request sess) of
             Throws \<Rightarrow> (finally_loaded t, [Fetch (list_request sess)])
           | Returns (Response False body) \<Rightarrow> (finally_loaded t, [Fetch (list_request sess)])
           | Returns (Response True None) \<Rightarrow> (finally_loaded t, [Fetch (list_request sess)])
           | Returns (Response True (Some charactersData)) \<Rightarrow>
               (let t1 = t\<lparr>ct_characters := charactersData\<rparr>;
                    t2 = (case ct_selectedCharacter snap of
                            None \<Rightarrow> t1
                          | Some sel \<Rightarrow>
                              t1\<lparr>ct_selectedCharacter :=
                                   find (\<lambda>char. char_id char = char_id sel) charactersData\<rparr>)
                in (finally_loaded t2, [Fetch (list_request sess)]))))"

text \<open>
  \<open>handleDeleteCharacter\<close> of the \<open>CharactersTab\<close> in \<open>src/unnamed/part_000\<close>. \<open>user.id\<close>
  throws a \<open>TypeError\<close> when \<open>user\<close> is \<open>null\<close>; every exception ends in the \<open>catch\<close>,
  which notifies \<open>DeleteUnexpected\<close>. The alert after a failed deletion is raised with
  \<open>Alert.alert\<close> on every platform.
\<close>

definition handleDeleteCharacter ::
  "platform \<Rightarrow> characters_env \<Rightarrow> characters_state \<Rightarrow> string
     \<Rightarrow> characters_state \<times> effect list" where
  "handleDeleteCharacter P E s characterId =
     (case ct_getSession E of
        Throws \<Rightarrow> (s, [notify P Erro DeleteUnexpected])
      | Returns None \<Rightarrow> (s, [notify P Erro NeedsAuthToDelete])
      | Returns (Some sess) \<Rightarrow>
          (case ct_user s of
             None \<Rightarrow> (s, [notify P Erro DeleteUnexpected])
           | Some u \<Rightarrow>
               (let del = SupabaseDelete characterId (user_id u) in
                case supabase_delete E characterId (user_id u) of
                  Throws \<Rightarrow> (s, [del, notify P Erro DeleteUnexpected])
                | Returns (Some err) \<Rightarrow> (s, [del, AlertAlert Erro NotDeleted])
                | Returns None \<Rightarrow>
                    (case global_response E of
                       None \<Rightarrow> (s, [del, notify P Erro DeleteUnexpected])
                     | Some False \<Rightarrow> (s, [del, notify P Erro NotDeletedRetry])
                     | Some True \<Rightarrow>
                         (let t1 = s\<lparr>ct_characters :=
                                       filter (\<lambda>char. char_id char \<noteq> characterId)
                                         (ct_characters s)\<rparr>;
                              t2 = (if map_option char_id (ct_selectedCharacter s) = Some characterId
                                    then t1\<lparr>ct_selectedCharacter := None\<rparr> else t1);
                              t3 = (if map_option char_id (spellSelectionCharacter s)
                                         = Some characterId
                                    then t2\<lparr>spellSelectionCharacter := None\<rparr> else t2);
                              (t4, effs) = loadCharacters E s t3
                          in (t4, [del, notify P Sucesso Deleted] @ effs))))))"

text \<open>
  The deletion flow of \<open>app/(tabs)/characters.tsx\<close>, which updates the local state
  right after the deletion call.
\<close>

definition handleDeleteCharacter_tabs ::
  "platform \<Rightarrow> characters_env \<Rightarrow> characters_state \<Rightarrow> string
     \<Rightarrow> characters_state \<times> effect list" where
  "handleDeleteCharacter_tabs P E s characterId =
     (case ct_getSession E of
        Throws \<Rightarrow> (s, [notify P Erro DeleteUnexpected])
      | Returns None \<Rightarrow> (s, [notify P Erro NeedsAuthToDelete])
      | Returns (Some sess) \<Rightarrow>
          (case ct_user s of
             None \<Rightarrow> (s, [notify P Erro NeedsAuthToDelete])
           | Some u \<Rightarrow>
               (let del = SupabaseDelete characterId (user_id u) in
                case supabase_delete E characterId (user_id u) of
                  Throws \<Rightarrow> (s, [del, notify P Erro DeleteUnexpected])
                | Returns (Some err) \<Rightarrow> (s, [del, notify P Erro NotDeleted])
                | Returns None \<Rightarrow>
                    (let t1 = s\<lparr>ct_characters :=
                                  filter (\<lambda>c. char_id c \<noteq> characterId) (ct_characters s)\<rparr>;
                         t2 = (if map_option char_id (ct_selectedCharacter s) = Some characterId
                               then t1\<lparr>ct_selectedCharacter := None\<rparr> else t1);
                         t3 = (if map_option char_id (spellSelectionCharacter s)
                                    = Some characterId
                               then t2\<lparr>spellSelectionCharacter := None\<rparr> else t2);
                         (t4, effs) = loadCharacters E s t3
                     in (t4, [del, notify P Sucesso Deleted] @ effs)))))"

subsection \<open>Adding selected spells (handleAddSpellsToGrimoire)\<close>

text \<open>The names already known, the selected spells that are new, and the entries to store.\<close>

definition currentSpellNames :: "character \<Rightarrow> string list" where
  "currentSpellNames c =
     map known_name (case spells_known c of None \<Rightarrow> [] | Some ks \<Rightarrow> ks)"

definition newSpells :: "character \<Rightarrow> spell list \<Rightarrow> spell list" where
  "newSpells c spells = filter (\<lambda>spell. name spell \<notin> set (currentSpellNames c)) spells"

definition spellsToAdd :: "character \<Rightarrow> spell list \<Rightarrow> known_spell list" where
  "spellsToAdd c spells = map (\<lambda>spell. KnownObject (name spell) (level spell)) (newSpells c spells)"

definition updatedSpells :: "character \<Rightarrow> spell list \<Rightarrow> known_spell list" where
  "updatedSpells c spells =
     (case spells_known c of None \<Rightarrow> [] | Some ks \<Rightarrow> ks) @ spellsToAdd c spells"

definition spells_request :: "session \<Rightarrow> character \<Rightarrow> known_spell list \<Rightarrow> request" where
  "spells_request sess c known =
     \<lparr>req_method = ''PUT'',
      req_url = ''/api/characters/'' @ char_id c,
      req_headers = [(''Authorization'', ''Bearer '' @ access_token sess),
                     (''Content-Type'', ''application/json'')],
      req_body = [(''spells_known'', KnownValue known)]\<rparr>"

definition handleAddSpellsToGrimoire ::
  "platform \<Rightarrow> characters_env \<Rightarrow> characters_state \<Rightarrow> spell list
     \<Rightarrow> characters_state \<times> effect list" where
  "handleAddSpellsToGrimoire P E s spells =
     (case spellSelectionCharacter s of
        None \<Rightarrow> (s, [notify P Erro NoCharacterSelected])
      | Some c \<Rightarrow>
          (case ct_getSession E of
             Throws \<Rightarrow> (s, [notify P Erro SpellsAddError])
           | Returns None \<Rightarrow> (s, [notify P Erro NeedsAuth])
           | Returns (Some sess) \<Rightarrow>
               if length (newSpells c spells) = 0 then (s, [notify P Aviso AllAlreadyKnown])
               else
                 (let req = spells_request sess c (updatedSpells c spells) in
                  case fetch_put E req of
                    Throws \<Rightarrow> (s, [Fetch req, notify P Erro SpellsAddError])
                  | Returns (Response False body) \<Rightarrow>
                      (s, [Fetch req, notify P Erro SpellsNotAdded])
                  | Returns (Response True None) \<Rightarrow>
                      (s, [Fetch req, notify P Erro SpellsAddError])
                  | Returns (Response True (Some updatedCharacter)) \<Rightarrow>
                      (let t1 = s\<lparr>ct_characters :=
                                    map (\<lambda>char. if char_id char = char_id c
                                                 then updatedCharacter else char)
                                      (ct_characters s)\<rparr>;
                           t2 = (if map_option char_id (ct_selectedCharacter s) = Some (char_id c)
                                 then t1\<lparr>ct_selectedCharacter := Some updatedCharacter\<rparr>
                                 else t1);
                           t3 = t2\<lparr>spellSelectionCharacter := Some updatedCharacter\<rparr>;
                           (t4, effs) = loadCharacters E s t3
                       in (t4, [Fetch req, notify P Sucesso (SpellsAdded (length (newSpells c spells)))]
                                @ effs)))))"

section \<open>The notions of the specification\<close>

text \<open>
  The definitions of this section follow the words of the specification, not the code;
  the theorems compare the code with them.
\<close>

text \<open>The pair \<open>[current, max]\<close> has its current value between 0 and its maximum.\<close>

fun current_in_range :: "jsnum list \<Rightarrow> bool" where
  "current_in_range (Num cur # Num mx # rest) = (0 \<le> cur \<and> cur \<le> mx)"
| "current_in_range _ = False"

text \<open>
  The selection toggle in the words of the specification: the full filtered set when the
  selection is not that set already, the empty set otherwise.
\<close>

definition selectAll_spec :: "string fset \<Rightarrow> spell list \<Rightarrow> string fset" where
  "selectAll_spec selectedSpells filtered =
     (if selectedSpells = fset_of_list (map spell_id filtered) then {||}
      else fset_of_list (map spell_id filtered))"

text \<open>
  Eligibility in the words of the specification. A subclass entry of a class is a plain
  name or a named object; \<open>entry_name\<close> is the name it carries, if any.
\<close>

fun entry_name :: "subclass_entry \<Rightarrow> string option" where
  "entry_name (SubclassName n) = Some n"
| "entry_name (SubclassObject nm) = nm"
| "entry_name SubclassNull = None"

definition eligible_by_class :: "platform \<Rightarrow> string \<Rightarrow> spell \<Rightarrow> bool" where
  "eligible_by_class P cname spell =
     (\<exists>cs cn. classes spell = Some cs \<and> Some cn \<in> set cs
        \<and> toLowerCase P (trim P cn) = toLowerCase P cname)"

definition shares_subclass :: "platform \<Rightarrow> dnd_class \<Rightarrow> spell \<Rightarrow> bool" where
  "shares_subclass P C spell =
     (\<exists>subs classSubs sub e n. subclasses spell = Some subs \<and> cls_subclasses C = Some classSubs
        \<and> sub \<in> set subs \<and> e \<in> set classSubs \<and> entry_name e = Some n
        \<and> toLowerCase P n = toLowerCase P sub)"


fun header_levels :: "list_item list \<Rightarrow> int list" where
  "header_levels [] = []"
| "header_levels (HeaderItem l # items) = l # header_levels items"
| "header_levels (SpellItem spell # items) = header_levels items"

fun spell_entries :: "list_item list \<Rightarrow> spell list" where
  "spell_entries [] = []"
| "spell_entries (HeaderItem l # items) = spell_entries items"
| "spell_entries (SpellItem spell # items) = spell # spell_entries items"

text \<open>
  The filter in the words of the specification: the name contains the query, compared
  in lower case, and the school equals the selected one, compared in lower case; an
  empty query and a null school impose nothing.
\<close>

definition matches_as_stated :: "platform \<Rightarrow> string \<Rightarrow> string option \<Rightarrow> spell \<Rightarrow> bool" where
  "matches_as_stated P searchText selectedSchool spell =
     ((searchText = [] \<or> str_includes (toLowerCase P (name spell)) (toLowerCase P searchText))
      \<and> (case selectedSchool of
            None \<Rightarrow> True
          | Some sel \<Rightarrow>
              (case school spell of
                 None \<Rightarrow> False
               | Some sch \<Rightarrow> toLowerCase P sch = toLowerCase P sel)))"

text \<open>
  A comparator on names is consistent when it never puts two names each after the other
  and its ``not after'' is transitive; \<open>localeCompare\<close> is.
\<close>

definition consistent_compare :: "(string \<Rightarrow> string \<Rightarrow> int) \<Rightarrow> bool" where
  "consistent_compare f =
     ((\<forall>a b. 0 < f a b \<longrightarrow> \<not> 0 < f b a) \<and> (\<forall>a b c. f a b \<le> 0 \<and> f b c \<le> 0 \<longrightarrow> f a c \<le> 0))"

text \<open>The same for any comparator, on the elements of a set.\<close>

definition consistent_on :: "('a \<Rightarrow> 'a \<Rightarrow> jsnum) \<Rightarrow> 'a set \<Rightarrow> bool" where
  "consistent_on cmp A =
     ((\<forall>a \<in> A. \<forall>b \<in> A. positive (cmp a b) \<longrightarrow> \<not> positive (cmp b a))
      \<and> (\<forall>a \<in> A. \<forall>b \<in> A. \<forall>c \<in> A.
            \<not> positive (cmp a b) \<longrightarrow> \<not> positive (cmp b c) \<longrightarrow> \<not> positive (cmp a c)))"

text \<open>Ascending order of levels that are numbers.\<close>

fun level_le :: "jsnum \<Rightarrow> jsnum \<Rightarrow> bool" where
  "level_le (Num a) (Num b) = (a \<le> b)"
| "level_le _ _ = False"

text \<open>The well-formed pairs of a slot object: the arrays of at least two numbers, with their keys.\<close>

fun well_formed_pairs :: "slot_object \<Rightarrow> (string \<times> jsnum list) list" where
  "well_formed_pairs [] = []"
| "well_formed_pairs ((k, SlotArray xs) # rest) =
     (if 2 \<le> length xs then (k, xs) # well_formed_pairs rest else well_formed_pairs rest)"
| "well_formed_pairs ((k, NotArray) # rest) = well_formed_pairs rest"

section \<open>A concrete runtime and concrete data\<close>

text \<open>
  An instance of the runtime functions for evaluating the model on concrete inputs. It
  agrees with the JavaScript functions on the ASCII strings used below: lower-casing of
  the letters A to Z, trimming of ASCII white space, comparison by code units, decimal
  rendering of integers, and \<open>parseInt\<close> on an optional sign followed by decimal digits.
\<close>

definition lower_char :: "char \<Rightarrow> char" where
  "lower_char c =
     (case map_of (zip ''ABCDEFGHIJKLMNOPQRSTUVWXYZ'' ''abcdefghijklmnopqrstuvwxyz'') c of
        None \<Rightarrow> c | Some d \<Rightarrow> d)"

definition is_space :: "char \<Rightarrow> bool" where
  "is_space c = (c \<in> set [CHR '' '', CHR 0x09, CHR 0x0A, CHR 0x0B, CHR 0x0C, CHR 0x0D])"

definition ascii_trim :: "string \<Rightarrow> string" where
  "ascii_trim s = rev (dropWhile is_space (rev (dropWhile is_space s)))"

definition code_units :: "string \<Rightarrow> nat list" where
  "code_units s = map of_char s"

definition ascii_compare :: "string \<Rightarrow> string \<Rightarrow> int" where
  "ascii_compare a b =
     (if code_units a < code_units b then - 1 else if code_units a = code_units b then 0 else 1)"

fun digits :: "nat \<Rightarrow> string" where
  "digits n = (if n < 10 then [''0123456789'' ! n]
               else digits (n div 10) @ [''0123456789'' ! (n mod 10)])"

declare digits.simps [simp del]

fun ascii_toString :: "jsnum \<Rightarrow> string" where
  "ascii_toString NaN = ''NaN''"
| "ascii_toString (Num i) = (if i < 0 then CHR ''-'' # digits (nat (- i)) else digits (nat i))"

definition digit_value :: "char \<Rightarrow> nat option" where
  "digit_value c = map_of (zip ''0123456789'' [0, 1, 2, 3, 4, 5, 6, 7, 8, 9]) c"

definition leading_digits :: "string \<Rightarrow> nat list" where
  "leading_digits s = map (the \<circ> digit_value) (takeWhile (\<lambda>c. digit_value c \<noteq> None) s)"

definition decimal :: "nat list \<Rightarrow> nat" where
  "decimal ds = foldl (\<lambda>acc d. 10 * acc + d) 0 ds"

definition ascii_parseInt :: "string \<Rightarrow> jsnum" where
  "ascii_parseInt s =
     (let s1 = dropWhile is_space s;
          neg = (s1 \<noteq> [] \<and> hd s1 = CHR ''-'');
          s2 = (if s1 \<noteq> [] \<and> (hd s1 = CHR ''-'' \<or> hd s1 = CHR ''+'') then tl s1 else s1);
          ds = leading_digits s2
      in if ds = [] then NaN
         else Num (if neg then - int (decimal ds) else int (decimal ds)))"

definition ascii :: platform where
  "ascii = \<lparr>toLowerCase = map lower_char, trim = ascii_trim, localeCompare = ascii_compare,
            toString = ascii_toString, parseInt = ascii_parseInt, isWeb = False\<rparr>"

text \<open>The character of the slot scenario: \<open>spell_slots = {"1": [4,4], "2": [1,3]}\<close>.\<close>

definition gandalf :: character where
  "gandalf =
     \<lparr>char_id = ''c1'', char_name = ''Gandalf'', class_name = ''Mago'', char_level = 10,
      hp_current = 68, hp_max = 78,
      spell_slots = Some [(''1'', SlotArray [Num 4, Num 4]), (''2'', SlotArray [Num 1, Num 3])],
      spells_known = Some [KnownName ''Fireball'', KnownName ''Unknown Spell'']\<rparr>"

text \<open>A character whose stored maximum at level 1 is negative.\<close>

definition cursed :: character where
  "cursed = gandalf\<lparr>char_id := ''c2'', spell_slots := Some [(''1'', SlotArray [Num 0, Num (- 1)])]\<rparr>"

text \<open>The three spells of the scenarios, and a second catalog entry named Fireball.\<close>

definition fireball :: spell where
  "fireball = \<lparr>spell_id = ''fireball'', name = ''Fireball'', level = 3,
                school = Some ''Evocation'', classes = Some [Some '' Wizard '', None],
                subclasses = Some []\<rparr>"

definition light :: spell where
  "light = \<lparr>spell_id = ''light'', name = ''Light'', level = 0,
             school = Some ''Evocation '', classes = Some [Some ''Cleric''],
             subclasses = Some [''Evoker'']\<rparr>"

definition shield :: spell where
  "shield = \<lparr>spell_id = ''shield'', name = ''Shield'', level = 1,
              school = Some ''Abjuration'', classes = None, subclasses = None\<rparr>"

definition fireball_reprint :: spell where
  "fireball_reprint = fireball\<lparr>spell_id := ''fireball-2''\<rparr>"

definition wizard :: dnd_class where
  "wizard = \<lparr>cls_name = Some ''wizard'',
              cls_subclasses = Some [SubclassNull, SubclassObject (Some ''EVOKER'')],
              spellcasting = True\<rparr>"

text \<open>A signed-in user, a store whose deletion succeeds, and no global \<open>response\<close>.\<close>

definition signed_in :: characters_env where
  "signed_in =
     \<lparr>ct_getSession = Returns (Some \<lparr>access_token = ''token''\<rparr>),
      supabase_delete = (\<lambda>characterId uid. Returns None),
      global_response = None,
      fetch_list = (\<lambda>req. Throws),
      fetch_put = (\<lambda>req. Throws)\<rparr>"

definition roster :: characters_state where
  "roster =
     \<lparr>ct_characters = [gandalf], ct_selectedCharacter = None,
      spellSelectionCharacter = Some gandalf, ct_loading = False, ct_refreshing = False,
      ct_user = Some \<lparr>user_id = ''u1''\<rparr>\<rparr>"

text \<open>
  A character who knows Fireball only, one who knows nothing, and the screen with each of
  them chosen for spell selection.
\<close>

definition apprentice :: character where
  "apprentice = gandalf\<lparr>char_id := ''c3'', spells_known := Some [KnownName ''Fireball'']\<rparr>"

definition novice :: character where
  "novice = gandalf\<lparr>char_id := ''c4'', spells_known := None\<rparr>"

definition selecting :: "character \<Rightarrow> characters_state" where
  "selecting c = roster\<lparr>spellSelectionCharacter := Some c\<rparr>"

text \<open>A catalog without custom or alternate data: the default dataset holds the three spells.\<close>

definition library :: catalog_env where
  "library = \<lparr>storedSpells = StoredNone, adaptedSpells = Throws,
               defaultSpells = [fireball, light, shield]\<rparr>"

text \<open>The grimoire screen with two characters loaded and a catalog that holds only Fireball.\<close>

definition grimoire :: grimoire_state where
  "grimoire =
     \<lparr>characters = [gandalf, apprentice], selectedCharacter = None, loading = False,
      refreshing = False, allSpells = [fireball]\<rparr>"

text \<open>
  A second level-1 spell, and a character who knows four catalog spells and one unknown
  name, with two well-formed slot pairs, a one-element array and a non-array.
\<close>

definition mage_armor :: spell where
  "mage_armor = shield\<lparr>spell_id := ''mage-armor'', name := ''Mage Armor''\<rparr>"

definition sage :: character where
  "sage =
     gandalf\<lparr>char_id := ''c5'',
       spell_slots := Some [(''1'', SlotArray [Num 4, Num 4]), (''2'', SlotArray [Num 1, Num 3]),
                            (''3'', SlotArray [Num 2]), (''4'', NotArray)],
       spells_known := Some [KnownObject ''Shield'' 1, KnownName ''Fireball'',
                             KnownName ''Unknown Spell'', KnownName ''Mage Armor'',
                             KnownName ''Light'']\<rparr>"

text \<open>
  Modelled from the spec: the remote store's update of one character (section 6: ``update
  one (partial, e.g. \<open>spell_slots\<close> or \<open>spells_known\<close> field)''), whose handler is not
  among the sources. A request whose body carries \<open>spell_slots\<close> is answered with success
  and the stored character \<open>c\<close> with that field replaced; any other body is refused.
\<close>

definition store_update :: "character \<Rightarrow> request \<Rightarrow> character response outcome" where
  "store_update c req =
     (case req_body req of
        [(field, SlotsValue m)] \<Rightarrow>
          if field = ''spell_slots'' then Returns (Response True (Some (c\<lparr>spell_slots := Some m\<rparr>)))
          else Returns (Response False None)
      | _ \<Rightarrow> Returns (Response False None))"

text \<open>
  The grimoire with Gandalf's detail view open, and three stores: unreachable,
  refusing, and updating Gandalf.
\<close>

definition grimoire_open :: grimoire_state where
  "grimoire_open =
     grimoire\<lparr>selectedCharacter := Some (prepareCharacterSpells ascii [wizard] [fireball] gandalf)\<rparr>"

definition offline :: grimoire_env where
  "offline = \<lparr>classesData = [wizard],
               getSession = Returns (Some \<lparr>access_token = ''token''\<rparr>),
               fetch = (\<lambda>req. Throws)\<rparr>"

definition refusing :: grimoire_env where
  "refusing = offline\<lparr>fetch := (\<lambda>req. Returns (Response False None))\<rparr>"

definition online :: grimoire_env where
  "online = offline\<lparr>fetch := store_update gandalf\<rparr>"

text \<open>The same outside, but with a global \<open>response\<close> whose \<open>ok\<close> flag is set.\<close>

definition with_global_response :: characters_env where
  "with_global_response = signed_in\<lparr>global_response := Some True\<rparr>"

section \<open>Slot adjustment is a clamp\<close>

lemma adjust_slots_current:
  "adjust_slots Current (Num delta) (Num cur # Num mx # rest) =
     Num (max 0 (min mx (cur + delta))) # Num mx # rest"
  by (simp add: adjust_slots_def arr_get_def arr_set_def)

lemma adjust_slots_max:
  "adjust_slots Max (Num delta) (Num cur # Num mx # rest) =
     Num (min cur (max 0 (mx + delta))) # Num (max 0 (mx + delta)) # rest"
  by (simp add: adjust_slots_def arr_get_def arr_set_def Let_def)

text \<open>
  C1, as amended. For a character whose slot object holds the numeric pair \<open>[cur, mx]\<close>
  (possibly followed by further elements) under the key of level \<open>lvl\<close>: adjusting
  \<open>current\<close> by \<open>delta\<close> replaces the pair's first element by
  \<open>max 0 (min mx (cur + delta))\<close>, which is never negative and is at most \<open>mx\<close> whenever
  \<open>mx\<close> is not negative; adjusting \<open>max\<close> replaces the maximum by \<open>max 0 (mx + delta)\<close>,
  never negative, and the current value by the minimum of its old value and the new
  maximum, so that afterwards current is at most the new maximum.
\<close>

theorem updated_slots_clamp:
  assumes "spell_slots c = Some m"
    and "map_of m (toString P lvl) = Some (SlotArray (Num cur # Num mx # rest))"
  shows "(\<exists>cur'. updated_slots P c lvl Current (Num delta) =
             Some (AList.update (toString P lvl) (SlotArray (Num cur' # Num mx # rest)) m)
           \<and> cur' = max 0 (min mx (cur + delta)) \<and> 0 \<le> cur' \<and> (0 \<le> mx \<longrightarrow> cur' \<le> mx))
       \<and> (\<exists>cur' mx'. updated_slots P c lvl Max (Num delta) =
             Some (AList.update (toString P lvl) (SlotArray (Num cur' # Num mx' # rest)) m)
           \<and> mx' = max 0 (mx + delta) \<and> 0 \<le> mx' \<and> cur' = min cur mx' \<and> cur' \<le> mx')"
  using assms
  by (simp add: updated_slots_def adjust_slots_current adjust_slots_max)

text \<open>
  The slot scenario: on \<open>{"1": [4,4], "2": [1,3]}\<close>, adjusting the current value of
  level 1 by \<open>-5\<close> gives 0, and adjusting its maximum by \<open>-5\<close> gives \<open>[0,0]\<close>.
\<close>

theorem updated_slots_clamp_witness:
  "spell_slots gandalf = Some [(''1'', SlotArray [Num 4, Num 4]), (''2'', SlotArray [Num 1, Num 3])]
   \<and> map_of [(''1'', SlotArray [Num 4, Num 4]), (''2'', SlotArray [Num 1, Num 3])]
        (toString ascii (Num 1)) = Some (SlotArray [Num 4, Num 4])
   \<and> (0::int) \<le> 4
   \<and> updated_slots ascii gandalf (Num 1) Current (Num (- 5)) =
        Some [(''1'', SlotArray [Num 0, Num 4]), (''2'', SlotArray [Num 1, Num 3])]
   \<and> updated_slots ascii gandalf (Num 1) Max (Num (- 5)) =
        Some [(''1'', SlotArray [Num 0, Num 0]), (''2'', SlotArray [Num 1, Num 3])]"
  using updated_slots_clamp [of gandalf
      "[(''1'', SlotArray [Num 4, Num 4]), (''2'', SlotArray [Num 1, Num 3])]"
      ascii "Num 1" 4 4 "[]" "- 5"]
  by (simp add: gandalf_def ascii_def digits.simps)

text \<open>
  C1 as stated fails where the stored maximum is negative: on the pair \<open>[0, -1]\<close>,
  adjusting the current value by \<open>+1\<close> leaves 0, which is above the maximum.
\<close>

theorem updated_slots_negative_max:
  "updated_slots ascii cursed (Num 1) Current (Num 1) = Some [(''1'', SlotArray [Num 0, Num (- 1)])]
   \<and> \<not> current_in_range [Num 0, Num (- 1)]"
  by (simp add: updated_slots_def cursed_def gandalf_def ascii_def digits.simps
      adjust_slots_def arr_get_def arr_set_def)

section \<open>Deleting a character\<close>

lemma notify_titles:
  "notify P Sucesso m \<noteq> notify P Erro m'"
  "notify P Sucesso m \<noteq> AlertAlert Erro m'"
  "notify P Sucesso m \<noteq> SupabaseDelete a b"
  by (simp_all add: notify_def)

text \<open>
  C2. In \<open>handleDeleteCharacter\<close>, once the supabase deletion has completed without error
  the handler evaluates \<open>response.ok\<close>, and \<open>response\<close> is declared nowhere. Where the
  global object has no such property the evaluation throws, so the run ends in the
  \<open>catch\<close>: the deletion was sent, the unexpected-error message is shown, and the local
  state is exactly what it was (the character is still listed, no success message, no
  refresh). The success message is never shown unless \<open>response\<close> resolves to an object
  whose \<open>ok\<close> is set.
\<close>

theorem handleDeleteCharacter_undeclared_response:
  "(ct_getSession E = Returns (Some sess) \<and> ct_user s = Some u
      \<and> supabase_delete E characterId (user_id u) = Returns None
      \<and> global_response E = None \<longrightarrow>
      handleDeleteCharacter P E s characterId =
        (s, [SupabaseDelete characterId (user_id u), notify P Erro DeleteUnexpected]))
   \<and> (notify P Sucesso Deleted \<in> set (snd (handleDeleteCharacter P E s characterId)) \<longrightarrow>
        global_response E = Some True)"
proof (intro conjI impI)
  assume "ct_getSession E = Returns (Some sess) \<and> ct_user s = Some u
      \<and> supabase_delete E characterId (user_id u) = Returns None
      \<and> global_response E = None"
  then show "handleDeleteCharacter P E s characterId =
        (s, [SupabaseDelete characterId (user_id u), notify P Erro DeleteUnexpected])"
    by (simp add: handleDeleteCharacter_def)
next
  assume a: "notify P Sucesso Deleted \<in> set (snd (handleDeleteCharacter P E s characterId))"
  show "global_response E = Some True"
  proof (rule ccontr)
    assume n: "global_response E \<noteq> Some True"
    have "notify P Sucesso Deleted \<notin> set (snd (handleDeleteCharacter P E s characterId))"
      using n
      by (auto simp: handleDeleteCharacter_def Let_def notify_titles
          split: outcome.splits option.splits bool.splits)
    with a show False by simp
  qed
qed

text \<open>With a global \<open>response\<close> in place the same run removes the character and refreshes.\<close>

lemma delete_with_global_response:
  "handleDeleteCharacter ascii with_global_response roster ''c1'' =
     (roster\<lparr>ct_characters := [], spellSelectionCharacter := None\<rparr>,
      [SupabaseDelete ''c1'' ''u1'', AlertAlert Sucesso Deleted,
       Fetch (list_request \<lparr>access_token = ''token''\<rparr>)])"
  by (simp add: handleDeleteCharacter_def with_global_response_def signed_in_def roster_def
      gandalf_def notify_def ascii_def loadCharacters_def finally_loaded_def Let_def)

theorem handleDeleteCharacter_undeclared_response_witness:
  "ct_getSession signed_in = Returns (Some \<lparr>access_token = ''token''\<rparr>)
   \<and> ct_user roster = Some \<lparr>user_id = ''u1''\<rparr>
   \<and> supabase_delete signed_in ''c1'' (user_id \<lparr>user_id = ''u1''\<rparr>) = Returns None
   \<and> global_response signed_in = None
   \<and> handleDeleteCharacter ascii signed_in roster ''c1'' =
        (roster, [SupabaseDelete ''c1'' ''u1'', AlertAlert Erro DeleteUnexpected])
   \<and> ct_characters roster = [gandalf] \<and> char_id gandalf = ''c1''
   \<and> notify ascii Sucesso Deleted
        \<in> set (snd (handleDeleteCharacter ascii with_global_response roster ''c1''))
   \<and> global_response with_global_response = Some True"
  using handleDeleteCharacter_undeclared_response
    [of signed_in "\<lparr>access_token = ''token''\<rparr>" roster "\<lparr>user_id = ''u1''\<rparr>" "''c1''" ascii]
    handleDeleteCharacter_undeclared_response
    [of with_global_response "\<lparr>access_token = ''token''\<rparr>" roster "\<lparr>user_id = ''u1''\<rparr>" "''c1''" ascii]
  by (simp add: delete_with_global_response)
    (simp add: signed_in_def roster_def notify_def ascii_def gandalf_def with_global_response_def)

text \<open>
  The flow of \<open>app/(tabs)/characters.tsx\<close> on the same inputs goes on to the success
  message.
\<close>

lemma handleDeleteCharacter_tabs_succeeds:
  assumes "ct_getSession E = Returns (Some sess)"
    and "ct_user s = Some u"
    and "supabase_delete E characterId (user_id u) = Returns None"
  shows "\<exists>t effs. handleDeleteCharacter_tabs P E s characterId =
           (t, SupabaseDelete characterId (user_id u) # notify P Sucesso Deleted # effs)"
  using assms
  by (simp add: handleDeleteCharacter_tabs_def Let_def split: prod.splits)

section \<open>Select all\<close>

lemma fcard_ids:
  "distinct (map spell_id xs) \<Longrightarrow> fcard (fset_of_list (map spell_id xs)) = length xs"
  by (metis distinct_card fcard.rep_eq fset_of_list.rep_eq length_map)

text \<open>
  C3, as amended. \<open>handleSelectAll\<close> clears the selection when the number of selected ids
  equals the number of filtered spells, and otherwise sets it to exactly the ids of the
  filtered spells. When the filtered spells have distinct ids and the selection holds
  only ids of filtered spells, this is the toggle of the specification (full set unless
  already full, then empty); and with distinct ids, two applications from the empty
  selection return to the empty selection.
\<close>

theorem handleSelectAll_toggle:
  "(fcard selectedSpells = length filtered \<longrightarrow> handleSelectAll selectedSpells filtered = {||})
   \<and> (fcard selectedSpells \<noteq> length filtered \<longrightarrow>
        handleSelectAll selectedSpells filtered = fset_of_list (map spell_id filtered))
   \<and> (distinct (map spell_id filtered)
        \<and> selectedSpells |\<subseteq>| fset_of_list (map spell_id filtered) \<longrightarrow>
        handleSelectAll selectedSpells filtered = selectAll_spec selectedSpells filtered)
   \<and> (distinct (map spell_id filtered) \<longrightarrow>
        handleSelectAll (handleSelectAll {||} filtered) filtered = {||})"
proof (intro conjI impI)
  assume d: "distinct (map spell_id filtered)
    \<and> selectedSpells |\<subseteq>| fset_of_list (map spell_id filtered)"
  let ?full = "fset_of_list (map spell_id filtered)"
  have card: "fcard ?full = length filtered"
    using d by (simp add: fcard_ids del: fset_of_list_map)
  show "handleSelectAll selectedSpells filtered = selectAll_spec selectedSpells filtered"
  proof (cases "selectedSpells = ?full")
    case True
    then show ?thesis
      using card by (simp add: handleSelectAll_def selectAll_spec_def del: fset_of_list_map)
  next
    case False
    with d have "selectedSpells |\<subset>| ?full" by auto
    then have "fcard selectedSpells < fcard ?full" by (rule pfsubset_fcard_mono)
    with False show ?thesis
      using card by (simp add: handleSelectAll_def selectAll_spec_def del: fset_of_list_map)
  qed
next
  assume d: "distinct (map spell_id filtered)"
  then have card: "fcard (fset_of_list (map spell_id filtered)) = length filtered"
    by (simp add: fcard_ids del: fset_of_list_map)
  show "handleSelectAll (handleSelectAll {||} filtered) filtered = {||}"
    using card
    by (cases filtered) (simp_all add: handleSelectAll_def fcard_fempty del: fset_of_list_map)
qed (simp_all add: handleSelectAll_def del: fset_of_list_map)

theorem handleSelectAll_toggle_witness:
  "fcard {|''fireball'', ''shield''|} = length [fireball, shield]
   \<and> handleSelectAll {|''fireball'', ''shield''|} [fireball, shield] = {||}
   \<and> fcard {|''fireball''|} \<noteq> length [fireball, shield]
   \<and> handleSelectAll {|''fireball''|} [fireball, shield] = {|''fireball'', ''shield''|}
   \<and> distinct (map spell_id [fireball, shield])
   \<and> {|''fireball''|} |\<subseteq>| fset_of_list (map spell_id [fireball, shield])
   \<and> handleSelectAll {|''fireball''|} [fireball, shield]
       = selectAll_spec {|''fireball''|} [fireball, shield]
   \<and> handleSelectAll (handleSelectAll {||} [fireball, shield]) [fireball, shield] = {||}"
  using handleSelectAll_toggle [of "{|''fireball'', ''shield''|}" "[fireball, shield]"]
    handleSelectAll_toggle [of "{|''fireball''|}" "[fireball, shield]"]
  by (simp add: fireball_def shield_def fcard_finsert_if fcard_fempty fempty_not_finsert
      handleSelectAll_def selectAll_spec_def)

text \<open>
  C3 as stated fails on a selection left over from an earlier filter: with Fireball
  selected and only Shield in the filtered view, Shield is not selected, yet
  \<open>handleSelectAll\<close> clears the selection instead of selecting Shield.
\<close>

theorem handleSelectAll_stale_selection:
  "handleSelectAll {|''fireball''|} [shield] \<noteq> selectAll_spec {|''fireball''|} [shield]"
  by (simp add: handleSelectAll_def selectAll_spec_def shield_def fcard_finsert_if fcard_fempty
      fempty_not_finsert)

section \<open>Adding spells to a character\<close>

lemma spellsToAdd_names:
  "map known_name (spellsToAdd c spells) =
     filter (\<lambda>n. n \<notin> set (currentSpellNames c)) (map name spells)"
  by (simp add: spellsToAdd_def newSpells_def filter_map comp_def)

text \<open>
  C4, as amended. With a character chosen for spell selection and an active session:
  no entry that \<open>handleAddSpellsToGrimoire\<close> adds has a name the character already knows
  (known entries being bare names or objects); when the selected spells have pairwise
  distinct names, so have the added entries; when every selected spell is already
  known, the state is unchanged and no request is sent, only the notice is shown;
  otherwise the handler sends one update whose \<open>spells_known\<close> is the old list followed
  by the new entries.
\<close>

theorem handleAddSpellsToGrimoire_new_only:
  assumes "spellSelectionCharacter s = Some c"
    and "ct_getSession E = Returns (Some sess)"
  shows "(\<forall>e \<in> set (spellsToAdd c spells). known_name e \<notin> set (currentSpellNames c))
       \<and> (distinct (map name spells) \<longrightarrow> distinct (map known_name (spellsToAdd c spells)))
       \<and> (set (map name spells) \<subseteq> set (currentSpellNames c) \<longrightarrow>
            handleAddSpellsToGrimoire P E s spells = (s, [notify P Aviso AllAlreadyKnown]))
       \<and> (\<not> set (map name spells) \<subseteq> set (currentSpellNames c) \<longrightarrow>
            (\<exists>t effs. handleAddSpellsToGrimoire P E s spells =
               (t, Fetch (spells_request sess c
                     ((case spells_known c of None \<Rightarrow> [] | Some ks \<Rightarrow> ks) @ spellsToAdd c spells))
                   # effs)))"
proof (intro conjI impI)
  show "\<forall>e \<in> set (spellsToAdd c spells). known_name e \<notin> set (currentSpellNames c)"
    by (auto simp: spellsToAdd_def newSpells_def)
next
  assume "distinct (map name spells)"
  then show "distinct (map known_name (spellsToAdd c spells))"
    by (simp add: spellsToAdd_names)
next
  assume "set (map name spells) \<subseteq> set (currentSpellNames c)"
  then have "newSpells c spells = []"
    by (auto simp: newSpells_def filter_empty_conv)
  then show "handleAddSpellsToGrimoire P E s spells = (s, [notify P Aviso AllAlreadyKnown])"
    using assms by (simp add: handleAddSpellsToGrimoire_def)
next
  assume "\<not> set (map name spells) \<subseteq> set (currentSpellNames c)"
  then have "newSpells c spells \<noteq> []"
    by (auto simp: newSpells_def filter_empty_conv)
  then show "\<exists>t effs. handleAddSpellsToGrimoire P E s spells =
               (t, Fetch (spells_request sess c
                     ((case spells_known c of None \<Rightarrow> [] | Some ks \<Rightarrow> ks) @ spellsToAdd c spells))
                   # effs)"
    using assms
    by (auto simp: handleAddSpellsToGrimoire_def updatedSpells_def Let_def
        split: outcome.splits response.splits option.splits bool.splits prod.splits)
qed


text \<open>
  The scenario: adding Fireball and Shield to a character who knows Fireball stores
  exactly one new entry, Shield; adding Fireball alone stores nothing.
\<close>

theorem handleAddSpellsToGrimoire_new_only_witness:
  "spellSelectionCharacter (selecting apprentice) = Some apprentice
   \<and> ct_getSession signed_in = Returns (Some \<lparr>access_token = ''token''\<rparr>)
   \<and> distinct (map name [fireball, shield])
   \<and> \<not> set (map name [fireball, shield]) \<subseteq> set (currentSpellNames apprentice)
   \<and> set (map name [fireball]) \<subseteq> set (currentSpellNames apprentice)
   \<and> spellsToAdd apprentice [fireball, shield] = [KnownObject ''Shield'' 1]
   \<and> handleAddSpellsToGrimoire ascii signed_in (selecting apprentice) [fireball, shield] =
        (selecting apprentice,
         [Fetch (spells_request \<lparr>access_token = ''token''\<rparr> apprentice
                   [KnownName ''Fireball'', KnownObject ''Shield'' 1]),
          AlertAlert Erro SpellsAddError])
   \<and> handleAddSpellsToGrimoire ascii signed_in (selecting apprentice) [fireball] =
        (selecting apprentice, [AlertAlert Aviso AllAlreadyKnown])"
  using handleAddSpellsToGrimoire_new_only
      [of "selecting apprentice" apprentice signed_in "\<lparr>access_token = ''token''\<rparr>"
          "[fireball, shield]" ascii]
    handleAddSpellsToGrimoire_new_only
      [of "selecting apprentice" apprentice signed_in "\<lparr>access_token = ''token''\<rparr>"
          "[fireball]" ascii]
  by (simp add: selecting_def roster_def signed_in_def apprentice_def gandalf_def fireball_def
      shield_def currentSpellNames_def spellsToAdd_def newSpells_def notify_def ascii_def
      handleAddSpellsToGrimoire_def updatedSpells_def)

text \<open>
  C4 as stated fails on a selection that holds two catalog entries of the same name:
  both are new to the character, and both are written in the one update.
\<close>

theorem handleAddSpellsToGrimoire_same_name_twice:
  "handleAddSpellsToGrimoire ascii signed_in (selecting novice) [fireball, fireball_reprint] =
     (selecting novice,
      [Fetch (spells_request \<lparr>access_token = ''token''\<rparr> novice
                [KnownObject ''Fireball'' 3, KnownObject ''Fireball'' 3]),
       AlertAlert Erro SpellsAddError])
   \<and> \<not> distinct (map known_name [KnownObject ''Fireball'' 3, KnownObject ''Fireball'' 3])"
  by (simp add: selecting_def roster_def signed_in_def novice_def gandalf_def fireball_def
      fireball_reprint_def currentSpellNames_def spellsToAdd_def newSpells_def notify_def
      ascii_def handleAddSpellsToGrimoire_def updatedSpells_def)

section \<open>Catalog loader\<close>

lemma isClassSpell_eligible: "isClassSpell P cname spell \<Longrightarrow> eligible_by_class P cname spell"
  by (auto simp: isClassSpell_def eligible_by_class_def list_ex_iff split: option.splits)

lemma subclass_matches_name:
  "subclass_matches P sub e \<Longrightarrow> \<exists>n. entry_name e = Some n \<and> toLowerCase P n = toLowerCase P sub"
  by (cases "(P, sub, e)" rule: subclass_matches.cases) auto

lemma isSubclassSpell_shares: "isSubclassSpell P C spell \<Longrightarrow> shares_subclass P C spell"
  unfolding isSubclassSpell_def shares_subclass_def
  by (auto simp: list_ex_iff split: option.splits) (meson subclass_matches_name)

lemma classSpells_member:
  assumes "spell \<in> set (classSpells P E (Some C))"
  shows "\<exists>cname. cls_name C = Some cname
           \<and> (isClassSpell P cname spell \<or> isSubclassSpell P C spell)"
proof (cases "cls_name C")
  case None
  with assms show ?thesis by (simp add: classSpells_def)
next
  case (Some cname)
  show ?thesis
  proof (cases "load_spells_data P E")
    case Throws
    with assms Some show ?thesis by (simp add: classSpells_def split: if_splits)
  next
    case (Returns spellsData)
    with assms Some show ?thesis by (simp add: classSpells_def split: if_splits)
  qed
qed

text \<open>
  C5. Every spell that \<open>classSpells\<close> returns for a class has the class's name in its
  eligible-class list, the list entry trimmed and both sides lower-cased, or has an
  eligible subclass that equals, lower-cased, the name of one of the class's own subclass
  entries (a plain name or a named object). For an absent class, and for a class whose
  name is absent or empty, the result is the empty list.
\<close>

theorem classSpells_eligible:
  "(\<forall>spell \<in> set (classSpells P E (Some C)).
       \<exists>cname. cls_name C = Some cname
         \<and> (eligible_by_class P cname spell \<or> shares_subclass P C spell))
   \<and> classSpells P E None = []
   \<and> (cls_name C = None \<or> cls_name C = Some [] \<longrightarrow> classSpells P E (Some C) = [])"
proof (intro conjI ballI impI)
  fix spell
  assume "spell \<in> set (classSpells P E (Some C))"
  then obtain cname where c: "cls_name C = Some cname"
    and m: "isClassSpell P cname spell \<or> isSubclassSpell P C spell"
    using classSpells_member by blast
  from m have "eligible_by_class P cname spell \<or> shares_subclass P C spell"
    using isClassSpell_eligible isSubclassSpell_shares by blast
  with c show "\<exists>cname. cls_name C = Some cname
         \<and> (eligible_by_class P cname spell \<or> shares_subclass P C spell)"
    by blast
next
  show "classSpells P E None = []" by (simp add: classSpells_def)
next
  assume "cls_name C = None \<or> cls_name C = Some []"
  then show "classSpells P E (Some C) = []" by (auto simp: classSpells_def)
qed


lemma classSpells_library: "classSpells ascii library (Some wizard) = [fireball, light]"
  by (simp add: classSpells_def load_spells_data_def default_or_adapted_def library_def
      wizard_def fireball_def light_def shield_def isClassSpell_def isSubclassSpell_def
      ascii_def lower_char_def ascii_trim_def is_space_def)

text \<open>
  For the class written \<open>wizard\<close> with the subclass object EVOKER, the loader returns
  Fireball (class entry \<open>" Wizard "\<close>) and Light (subclass Evoker), and not Shield.
\<close>

theorem classSpells_eligible_witness:
  "classSpells ascii library (Some wizard) = [fireball, light]
   \<and> cls_name wizard = Some ''wizard''
   \<and> eligible_by_class ascii ''wizard'' fireball
   \<and> shares_subclass ascii wizard light
   \<and> classSpells ascii library None = []
   \<and> cls_name (wizard\<lparr>cls_name := Some []\<rparr>) = Some []
   \<and> classSpells ascii library (Some (wizard\<lparr>cls_name := Some []\<rparr>)) = []"
  using classSpells_eligible [of ascii library wizard]
    classSpells_eligible [of ascii library "wizard\<lparr>cls_name := Some []\<rparr>"]
  by (simp add: classSpells_library)
    (simp add: wizard_def fireball_def light_def eligible_by_class_def shares_subclass_def
      ascii_def lower_char_def ascii_trim_def is_space_def)

section \<open>Presentation builder\<close>

lemma header_levels_append [simp]:
  "header_levels (xs @ ys) = header_levels xs @ header_levels ys"
  by (induction xs rule: header_levels.induct) auto

lemma spell_entries_append [simp]:
  "spell_entries (xs @ ys) = spell_entries xs @ spell_entries ys"
  by (induction xs rule: spell_entries.induct) auto











section \<open>Filter and sort\<close>

lemma mset_sort_insert: "mset (sort_insert cmp x xs) = add_mset x (mset xs)"
  by (induction xs) auto

lemma mset_js_sort: "mset (js_sort cmp xs) = mset xs"
  by (induction xs) (auto simp: js_sort_def mset_sort_insert)

lemma set_js_sort: "set (js_sort cmp xs) = set xs"
  by (metis mset_js_sort set_mset_mset)

text \<open>
  C7, as amended. For every catalog, query and school selection, the result of
  \<open>filteredAndSortedSpells\<close> holds exactly the catalog spells (with their multiplicity)
  whose name, lower-cased, contains the lower-cased query, the empty query constraining
  nothing, and, when a non-empty school is selected, whose school is present, not empty
  and, trimmed and lower-cased, equal to the lower-cased selection. In particular every
  result of a non-empty query contains the query, and the empty query with no school
  returns the whole catalog.
\<close>

theorem filteredAndSortedSpells_exact:
  "mset (filteredAndSortedSpells P spells searchText selectedSchool) =
     mset (filter (\<lambda>spell.
       (searchText = [] \<or> str_includes (toLowerCase P (name spell)) (toLowerCase P searchText))
       \<and> (case selectedSchool of
             None \<Rightarrow> True
           | Some sel \<Rightarrow> sel = [] \<or>
               (\<exists>sch. school spell = Some sch \<and> sch \<noteq> []
                  \<and> toLowerCase P (trim P sch) = toLowerCase P sel))) spells)
   \<and> (searchText \<noteq> [] \<longrightarrow>
        (\<forall>spell \<in> set (filteredAndSortedSpells P spells searchText selectedSchool).
           str_includes (toLowerCase P (name spell)) (toLowerCase P searchText)))
   \<and> mset (filteredAndSortedSpells P spells [] None) = mset spells"
proof -
  have p: "(matchesSearch P searchText spell \<and> matchesSchool P selectedSchool spell) =
       ((searchText = [] \<or> str_includes (toLowerCase P (name spell)) (toLowerCase P searchText))
       \<and> (case selectedSchool of
             None \<Rightarrow> True
           | Some sel \<Rightarrow> sel = [] \<or>
               (\<exists>sch. school spell = Some sch \<and> sch \<noteq> []
                  \<and> toLowerCase P (trim P sch) = toLowerCase P sel)))" for spell
    by (auto simp: matchesSearch_def matchesSchool_def split: option.splits)
  have a: "mset (filteredAndSortedSpells P spells searchText selectedSchool) =
     mset (filter (\<lambda>spell. matchesSearch P searchText spell \<and> matchesSchool P selectedSchool spell)
       spells)"
    by (simp only: filteredAndSortedSpells_def mset_js_sort)
  have b: "searchText \<noteq> [] \<longrightarrow>
        (\<forall>spell \<in> set (filteredAndSortedSpells P spells searchText selectedSchool).
           str_includes (toLowerCase P (name spell)) (toLowerCase P searchText))"
    by (auto simp: filteredAndSortedSpells_def set_js_sort matchesSearch_def)
  have c: "mset (filteredAndSortedSpells P spells [] None) = mset spells"
    by (simp add: filteredAndSortedSpells_def mset_js_sort matchesSearch_def matchesSchool_def)
  show ?thesis using a b c by (simp only: p)
qed

text \<open>
  The filter scenario: the query \<open>li\<close> on Fireball, Light, Shield gives exactly Light; the
  school EVOCATION selects Light, stored as \<open>"Evocation "\<close>, and Fireball.
\<close>

lemma filter_li: "filteredAndSortedSpells ascii [fireball, light, shield] ''li'' None = [light]"
  by (simp add: filteredAndSortedSpells_def matchesSearch_def matchesSchool_def js_sort_def
      fireball_def light_def shield_def ascii_def lower_char_def)

theorem filteredAndSortedSpells_exact_witness:
  "''li'' \<noteq> []
   \<and> filteredAndSortedSpells ascii [fireball, light, shield] ''li'' None = [light]
   \<and> str_includes (toLowerCase ascii (name light)) (toLowerCase ascii ''li'')
   \<and> filteredAndSortedSpells ascii [fireball, light, shield] '''' (Some ''EVOCATION'') = [light, fireball]"
  using filteredAndSortedSpells_exact [of ascii "[fireball, light, shield]" "''li''" None]
  by (simp add: filter_li)
   (simp add: filteredAndSortedSpells_def matchesSearch_def matchesSchool_def js_sort_def
      compare_level_name_def fireball_def light_def shield_def ascii_def lower_char_def
      ascii_trim_def is_space_def)

text \<open>
  C7 as stated fails on a school stored with surrounding white space: Light's school
  \<open>"Evocation "\<close> is not the selected \<open>"Evocation"\<close> in any letter case, yet Light is in
  the result, because the code trims the stored school before comparing.
\<close>

theorem filteredAndSortedSpells_untrimmed_school:
  "filteredAndSortedSpells ascii [light] '''' (Some ''Evocation'') = [light]
   \<and> \<not> matches_as_stated ascii '''' (Some ''Evocation'') light"
  by (simp add: filteredAndSortedSpells_def matchesSearch_def matchesSchool_def js_sort_def
      matches_as_stated_def light_def ascii_def lower_char_def ascii_trim_def is_space_def)

section \<open>Grimoire aggregation\<close>

subsection \<open>The insertion sort sorts under a consistent comparator\<close>

lemma set_sort_insert: "set (sort_insert cmp x xs) = insert x (set xs)"
  by (induction xs) auto

lemma consistent_on_subset: "consistent_on cmp A \<Longrightarrow> B \<subseteq> A \<Longrightarrow> consistent_on cmp B"
  unfolding consistent_on_def by blast

lemma consistent_on_asym:
  "consistent_on cmp A \<Longrightarrow> a \<in> A \<Longrightarrow> b \<in> A \<Longrightarrow> positive (cmp a b)
     \<Longrightarrow> \<not> positive (cmp b a)"
  unfolding consistent_on_def by blast

lemma consistent_on_trans:
  "consistent_on cmp A \<Longrightarrow> a \<in> A \<Longrightarrow> b \<in> A \<Longrightarrow> c \<in> A
     \<Longrightarrow> \<not> positive (cmp a b) \<Longrightarrow> \<not> positive (cmp b c) \<Longrightarrow> \<not> positive (cmp a c)"
  unfolding consistent_on_def by blast

lemma sorted_sort_insert:
  assumes "sorted_wrt (\<lambda>a b. \<not> positive (cmp a b)) ys"
    and "consistent_on cmp (insert x (set ys))"
  shows "sorted_wrt (\<lambda>a b. \<not> positive (cmp a b)) (sort_insert cmp x ys)"
  using assms
proof (induction ys)
  case Nil
  then show ?case by simp
next
  case (Cons y ys)
  have c: "consistent_on cmp (insert x (set (y # ys)))" by (rule Cons.prems(2))
  have sub: "consistent_on cmp (insert x (set ys))"
    by (rule consistent_on_subset [OF c]) auto
  have sorted_ys: "sorted_wrt (\<lambda>a b. \<not> positive (cmp a b)) ys"
    and y_first: "\<forall>z \<in> set ys. \<not> positive (cmp y z)"
    using Cons.prems(1) by simp_all
  show ?case
  proof (cases "positive (cmp x y)")
    case True
    have "sorted_wrt (\<lambda>a b. \<not> positive (cmp a b)) (sort_insert cmp x ys)"
      using sorted_ys sub by (rule Cons.IH)
    moreover have "\<not> positive (cmp y x)"
      by (rule consistent_on_asym [OF c _ _ True]) simp_all
    ultimately show ?thesis
      using True y_first by (simp add: set_sort_insert)
  next
    case False
    have "\<not> positive (cmp x z)" if "z \<in> set ys" for z
    proof -
      have "\<not> positive (cmp y z)" using y_first that by simp
      with False that show ?thesis
        by (intro consistent_on_trans [OF c, of x y z]) simp_all
    qed
    with False Cons.prems(1) show ?thesis by simp
  qed
qed

lemma sorted_js_sort:
  assumes "consistent_on cmp (set xs)"
  shows "sorted_wrt (\<lambda>a b. \<not> positive (cmp a b)) (js_sort cmp xs)"
  using assms
proof (induction xs)
  case Nil
  then show ?case by (simp add: js_sort_def)
next
  case (Cons x xs)
  have "consistent_on cmp (set xs)"
    by (rule consistent_on_subset [OF Cons.prems]) auto
  then have s: "sorted_wrt (\<lambda>a b. \<not> positive (cmp a b)) (js_sort cmp xs)"
    by (rule Cons.IH)
  have e: "js_sort cmp (x # xs) = sort_insert cmp x (js_sort cmp xs)"
    by (simp add: js_sort_def)
  have c: "consistent_on cmp (insert x (set (js_sort cmp xs)))"
    using Cons.prems by (simp add: set_js_sort)
  show ?case
    unfolding e using s c by (rule sorted_sort_insert)
qed


subsection \<open>Resolution\<close>

lemma resolve_known_names:
  "map name (resolve_known catalog known) =
     filter (\<lambda>n. n \<in> name ` set catalog) (map known_name known)"
proof (induction known)
  case Nil
  then show ?case by (simp add: resolve_known_def)
next
  case (Cons k ks)
  have tail: "resolve_known catalog (k # ks) =
      (case getSpellByName catalog (known_name k) of None \<Rightarrow> [] | Some spell \<Rightarrow> [spell])
      @ resolve_known catalog ks"
    by (simp add: resolve_known_def)
  show ?case
  proof (cases "getSpellByName catalog (known_name k)")
    case None
    then have "known_name k \<notin> name ` set catalog"
      by (auto simp: getSpellByName_def find_None_iff)
    with None Cons.IH show ?thesis by (simp add: tail)
  next
    case (Some spell)
    then have "name spell = known_name k" and "spell \<in> set catalog"
      by (auto simp: getSpellByName_def find_Some_iff)
    then have "known_name k \<in> name ` set catalog" by force
    with Some Cons.IH \<open>name spell = known_name k\<close> show ?thesis by (simp add: tail)
  qed
qed

lemma getSpellByName_Some:
  "getSpellByName catalog n = Some spell \<Longrightarrow> spell \<in> set catalog \<and> name spell = n"
  by (auto simp: getSpellByName_def find_Some_iff)

lemma resolve_known_subset: "set (resolve_known catalog known) \<subseteq> set catalog"
  by (auto simp: resolve_known_def split: option.splits dest: getSpellByName_Some [OF sym])

subsection \<open>Grouping\<close>

lemma map_of_push_by_level:
  "map_of (push_by_level m s) l =
     (if l = level s then Some ((case map_of m l of None \<Rightarrow> [] | Some b \<Rightarrow> b) @ [s])
      else map_of m l)"
  by (simp add: push_by_level_def update_conv')

lemma map_of_foldl_push:
  "map_of (foldl push_by_level m spells) l =
     (if filter (\<lambda>s. level s = l) spells = [] then map_of m l
      else Some ((case map_of m l of None \<Rightarrow> [] | Some b \<Rightarrow> b) @ filter (\<lambda>s. level s = l) spells))"
proof (induction spells arbitrary: m)
  case Nil
  then show ?case by simp
next
  case (Cons s rest)
  show ?case
    by (simp add: Cons.IH map_of_push_by_level)
qed

lemma distinct_push_by_level:
  "distinct (map fst m) \<Longrightarrow> distinct (map fst (push_by_level m s))"
  by (simp add: push_by_level_def distinct_update)

lemma distinct_foldl_push:
  "distinct (map fst m) \<Longrightarrow> distinct (map fst (foldl push_by_level m spells))"
  by (induction spells arbitrary: m) (simp_all add: distinct_push_by_level)

lemma group_by_level_bucket:
  "(l, bucket) \<in> set (group_by_level spells) \<longleftrightarrow>
     bucket = filter (\<lambda>s. level s = l) spells \<and> bucket \<noteq> []"
proof -
  have d: "distinct (map fst (group_by_level spells))"
    by (simp add: group_by_level_def distinct_foldl_push)
  have "(l, bucket) \<in> set (group_by_level spells) \<longleftrightarrow>
      map_of (group_by_level spells) l = Some bucket"
    using d by simp
  also have "\<dots> \<longleftrightarrow> bucket = filter (\<lambda>s. level s = l) spells \<and> bucket \<noteq> []"
    by (auto simp: group_by_level_def map_of_foldl_push)
  finally show ?thesis .
qed

lemma distinct_group_by_level: "distinct (map fst (group_by_level spells))"
  by (simp add: group_by_level_def distinct_foldl_push)

lemma sort_buckets_keys: "map fst (sort_buckets P m) = map fst m"
  by (simp add: sort_buckets_def case_prod_unfold comp_def)

lemma sort_buckets_member:
  "(l, bucket) \<in> set (sort_buckets P m) \<longleftrightarrow>
     (\<exists>b. (l, b) \<in> set m \<and> bucket = js_sort (compare_name P) b)"
  by (auto simp: sort_buckets_def)

subsection \<open>Slots\<close>

lemma slot_entries_well_formed:
  "concat (map (slot_entry P) m) =
     map (\<lambda>(k, xs). \<lparr>slot_current = xs ! 0, slot_max = xs ! 1, slot_level = parseInt P k\<rparr>)
       (well_formed_pairs m)"
  by (induction m rule: well_formed_pairs.induct) simp_all

lemma well_formed_pairs_member:
  "(k, xs) \<in> set (well_formed_pairs m) \<longleftrightarrow> (k, SlotArray xs) \<in> set m \<and> 2 \<le> length xs"
  by (induction m rule: well_formed_pairs.induct) auto


subsection \<open>The two sorts\<close>

lemma compare_name_consistent:
  assumes "consistent_compare (localeCompare P)"
  shows "consistent_on (compare_name P) A"
proof -
  have asym: "\<not> 0 < localeCompare P y x" if "0 < localeCompare P x y" for x y
    using assms that unfolding consistent_compare_def by blast
  have trans: "localeCompare P x z \<le> 0"
    if "localeCompare P x y \<le> 0" "localeCompare P y z \<le> 0" for x y z
    using assms that unfolding consistent_compare_def by blast
  show ?thesis
    unfolding consistent_on_def compare_name_def
  proof (intro conjI ballI impI)
    fix a b
    assume "positive (Num (localeCompare P (name a) (name b)))"
    then have "0 < localeCompare P (name a) (name b)" by simp
    then have "\<not> 0 < localeCompare P (name b) (name a)" by (rule asym)
    then show "\<not> positive (Num (localeCompare P (name b) (name a)))" by simp
  next
    fix a b c
    assume "\<not> positive (Num (localeCompare P (name a) (name b)))"
      and "\<not> positive (Num (localeCompare P (name b) (name c)))"
    then have "localeCompare P (name a) (name b) \<le> 0" "localeCompare P (name b) (name c) \<le> 0"
      by simp_all
    then have "localeCompare P (name a) (name c) \<le> 0" by (rule trans)
    then show "\<not> positive (Num (localeCompare P (name a) (name c)))" by simp
  qed
qed

lemma sorted_bucket:
  assumes "consistent_compare (localeCompare P)"
  shows "sorted_wrt (\<lambda>a b. localeCompare P (name a) (name b) \<le> 0) (js_sort (compare_name P) b)"
proof -
  have "sorted_wrt (\<lambda>x y. \<not> positive (compare_name P x y)) (js_sort (compare_name P) b)"
    by (rule sorted_js_sort) (rule compare_name_consistent [OF assms])
  then show ?thesis by (simp add: compare_name_def not_less)
qed

lemma positive_compare_slot_level:
  "positive (compare_slot_level a b) \<longleftrightarrow>
     (\<exists>x y. slot_level a = Num x \<and> slot_level b = Num y \<and> y < x)"
  by (cases "slot_level a"; cases "slot_level b") (simp_all add: compare_slot_level_def)

lemma compare_slot_level_consistent:
  assumes "\<forall>i \<in> A. slot_level i \<noteq> NaN"
  shows "consistent_on compare_slot_level A"
proof -
  have num: "\<exists>x. slot_level i = Num x" if "i \<in> A" for i
    using assms that by (cases "slot_level i") auto
  show ?thesis
    unfolding consistent_on_def positive_compare_slot_level
  proof (intro conjI ballI impI)
    fix a b
    assume "a \<in> A" "b \<in> A" "\<exists>x y. slot_level a = Num x \<and> slot_level b = Num y \<and> y < x"
    then show "\<not> (\<exists>x y. slot_level b = Num x \<and> slot_level a = Num y \<and> y < x)" by auto
  next
    fix a b c
    assume a: "a \<in> A" and b: "b \<in> A" and c: "c \<in> A"
      and ab: "\<not> (\<exists>x y. slot_level a = Num x \<and> slot_level b = Num y \<and> y < x)"
      and bc: "\<not> (\<exists>x y. slot_level b = Num x \<and> slot_level c = Num y \<and> y < x)"
    from num [OF a] num [OF b] num [OF c] obtain x y z
      where "slot_level a = Num x" "slot_level b = Num y" "slot_level c = Num z" by blast
    with ab bc show "\<not> (\<exists>x y. slot_level a = Num x \<and> slot_level c = Num y \<and> y < x)" by auto
  qed
qed

lemma sorted_slots:
  assumes "\<forall>i \<in> set items. slot_level i \<noteq> NaN"
  shows "sorted_wrt (\<lambda>a b. level_le (slot_level a) (slot_level b)) (js_sort compare_slot_level items)"
proof -
  have s: "sorted_wrt (\<lambda>a b. \<not> positive (compare_slot_level a b)) (js_sort compare_slot_level items)"
    by (rule sorted_js_sort) (rule compare_slot_level_consistent [OF assms])
  have le: "level_le (slot_level a) (slot_level b)"
    if "a \<in> set (js_sort compare_slot_level items)" "b \<in> set (js_sort compare_slot_level items)"
      "\<not> positive (compare_slot_level a b)" for a b
  proof -
    have "a \<in> set items" "b \<in> set items"
      using that(1,2) by (simp_all only: set_js_sort)
    then have "slot_level a \<noteq> NaN" "slot_level b \<noteq> NaN"
      using assms by blast+
    then obtain x y where "slot_level a = Num x" "slot_level b = Num y"
      by (cases "slot_level a"; cases "slot_level b") simp_all
    with that(3) show ?thesis by (simp add: compare_slot_level_def)
  qed
  show ?thesis by (rule sorted_wrt_mono_rel [OF le s])
qed

text \<open>
  C8. \<open>prepareCharacterSpells\<close> always returns (no known-spell entry raises an error), and
  in its result: the resolved spells are catalog spells whose names are, in order, the
  names of the known-spell entries (bare strings or objects) that occur in the catalog,
  the others being dropped; \<open>spellsByLevel\<close> has one bucket for each level of a resolved
  spell, holding exactly the resolved spells of that level, sorted by name under
  \<open>localeCompare\<close> (a consistent comparator); the slot summaries are exactly those of the
  entries that are arrays of at least two numbers, and they are in ascending order of
  level whenever every level key parses to a number.
\<close>

theorem prepareCharacterSpells_aggregates:
  assumes "consistent_compare (localeCompare P)"
  shows "\<exists>spells byLevel slotInfos cls.
       prepareCharacterSpells P classList catalog c =
         \<lparr>cs_character = c, cs_spells = spells, spellsByLevel = byLevel,
          spellSlots = slotInfos, characterClass = cls\<rparr>
     \<and> map name spells =
         filter (\<lambda>n. n \<in> name ` set catalog)
           (map known_name (case spells_known c of None \<Rightarrow> [] | Some ks \<Rightarrow> ks))
     \<and> set spells \<subseteq> set catalog
     \<and> distinct (map fst byLevel)
     \<and> fst ` set byLevel = level ` set spells
     \<and> (\<forall>(l, bucket) \<in> set byLevel.
           mset bucket = mset (filter (\<lambda>s. level s = l) spells)
           \<and> sorted_wrt (\<lambda>a b. localeCompare P (name a) (name b) \<le> 0) bucket)
     \<and> mset slotInfos =
         mset (map (\<lambda>(k, xs). \<lparr>slot_current = xs ! 0, slot_max = xs ! 1, slot_level = parseInt P k\<rparr>)
                (well_formed_pairs (case spell_slots c of None \<Rightarrow> [] | Some m \<Rightarrow> m)))
     \<and> ((\<forall>i \<in> set slotInfos. slot_level i \<noteq> NaN) \<longrightarrow>
           sorted_wrt (\<lambda>a b. level_le (slot_level a) (slot_level b)) slotInfos)"
proof -
  define known where "known = (case spells_known c of None \<Rightarrow> [] | Some ks \<Rightarrow> ks)"
  define slots where "slots = (case spell_slots c of None \<Rightarrow> [] | Some m \<Rightarrow> m)"
  define spells where "spells = resolve_known catalog known"
  define byLevel where "byLevel = sort_buckets P (group_by_level spells)"
  define items where "items = concat (map (slot_entry P) slots)"
  define cls where "cls = find (\<lambda>cls. cls_name cls = Some (class_name c)) classList"
  have items_eq: "(case spell_slots c of None \<Rightarrow> []
                   | Some m \<Rightarrow> concat (map (slot_entry P) m)) = items"
    unfolding items_def slots_def by (cases "spell_slots c") simp_all
  have r: "prepareCharacterSpells P classList catalog c =
         \<lparr>cs_character = c, cs_spells = spells, spellsByLevel = byLevel,
          spellSlots = js_sort compare_slot_level items, characterClass = cls\<rparr>"
    unfolding prepareCharacterSpells_def Let_def items_eq
    unfolding spells_def known_def byLevel_def cls_def by (rule refl)
  have names: "map name spells = filter (\<lambda>n. n \<in> name ` set catalog) (map known_name known)"
    unfolding spells_def by (rule resolve_known_names)
  have sub: "set spells \<subseteq> set catalog"
    unfolding spells_def by (rule resolve_known_subset)
  have keys: "distinct (map fst byLevel)"
    unfolding byLevel_def by (simp add: sort_buckets_keys distinct_group_by_level)
  have levels: "fst ` set byLevel = level ` set spells"
  proof -
    have "fst ` set byLevel = fst ` set (group_by_level spells)"
      unfolding byLevel_def using sort_buckets_keys [of P "group_by_level spells"]
      by (metis set_map)
    also have "\<dots> = level ` set spells"
    proof (intro set_eqI iffI)
      fix l assume "l \<in> fst ` set (group_by_level spells)"
      then obtain b where "(l, b) \<in> set (group_by_level spells)" by force
      then have "filter (\<lambda>s. level s = l) spells \<noteq> []"
        by (auto simp: group_by_level_bucket)
      then show "l \<in> level ` set spells"
        by (auto simp: filter_empty_conv)
    next
      fix l assume "l \<in> level ` set spells"
      then have "filter (\<lambda>s. level s = l) spells \<noteq> []"
        by (auto simp: filter_empty_conv)
      then have "(l, filter (\<lambda>s. level s = l) spells) \<in> set (group_by_level spells)"
        by (simp add: group_by_level_bucket)
      then show "l \<in> fst ` set (group_by_level spells)" by force
    qed
    finally show ?thesis .
  qed
  have buckets: "\<forall>(l, bucket) \<in> set byLevel.
           mset bucket = mset (filter (\<lambda>s. level s = l) spells)
           \<and> sorted_wrt (\<lambda>a b. localeCompare P (name a) (name b) \<le> 0) bucket"
  proof (intro ballI, clarify)
    fix l bucket assume "(l, bucket) \<in> set byLevel"
    then obtain b where b: "(l, b) \<in> set (group_by_level spells)"
      and bucket: "bucket = js_sort (compare_name P) b"
      unfolding byLevel_def by (auto simp: sort_buckets_member)
    from b have "b = filter (\<lambda>s. level s = l) spells" by (simp add: group_by_level_bucket)
    then show "mset bucket = mset (filter (\<lambda>s. level s = l) spells)
           \<and> sorted_wrt (\<lambda>a b. localeCompare P (name a) (name b) \<le> 0) bucket"
      using sorted_bucket [OF assms] by (simp add: bucket mset_js_sort)
  qed
  have slots_mset: "mset (js_sort compare_slot_level items) =
         mset (map (\<lambda>(k, xs). \<lparr>slot_current = xs ! 0, slot_max = xs ! 1, slot_level = parseInt P k\<rparr>)
                (well_formed_pairs slots))"
    by (simp add: mset_js_sort items_def slot_entries_well_formed)
  have slots_sorted: "(\<forall>i \<in> set (js_sort compare_slot_level items). slot_level i \<noteq> NaN) \<longrightarrow>
           sorted_wrt (\<lambda>a b. level_le (slot_level a) (slot_level b))
             (js_sort compare_slot_level items)"
    by (auto simp: set_js_sort intro: sorted_slots)
  note names' = names [unfolded known_def] and slots_mset' = slots_mset [unfolded slots_def]
  show ?thesis
    apply (rule exI [of _ spells])
    apply (rule exI [of _ byLevel])
    apply (rule exI [of _ "js_sort compare_slot_level items"])
    apply (rule exI [of _ cls])
    apply (intro conjI)
           apply (rule r)
          apply (rule names')
         apply (rule sub)
        apply (rule keys)
       apply (rule levels)
      apply (rule buckets)
     apply (rule slots_mset')
    apply (rule slots_sorted)
    done
qed


lemma ascii_compare_sign:
  "(0 < ascii_compare a b \<longleftrightarrow> code_units b < code_units a)
   \<and> (ascii_compare a b \<le> 0 \<longleftrightarrow> code_units a \<le> code_units b)"
proof (cases "code_units a" "code_units b" rule: linorder_cases)
  case less
  have v: "ascii_compare a b = - 1"
    unfolding ascii_compare_def using less by (rule if_P)
  have "\<not> code_units b < code_units a" using less by (rule less_not_sym)
  moreover have "code_units a \<le> code_units b" using less by (rule less_imp_le)
  ultimately show ?thesis unfolding v by simp
next
  case equal
  have "\<not> code_units a < code_units b" unfolding equal by (rule less_irrefl)
  then have "ascii_compare a b = (if code_units a = code_units b then 0 else 1)"
    unfolding ascii_compare_def by (rule if_not_P)
  then have v: "ascii_compare a b = 0" using equal by simp
  show ?thesis unfolding v equal by simp
next
  case greater
  have n: "\<not> code_units a < code_units b" using greater by (rule less_not_sym)
  have ne: "code_units a \<noteq> code_units b" using greater by (rule less_imp_neq [THEN not_sym])
  have nle: "\<not> code_units a \<le> code_units b" using greater by (simp only: not_le)
  have "ascii_compare a b = (if code_units a = code_units b then 0 else 1)"
    unfolding ascii_compare_def using n by (rule if_not_P)
  also have "\<dots> = 1" using ne by (rule if_not_P)
  finally have v: "ascii_compare a b = 1" .
  show ?thesis unfolding v using greater nle by simp
qed

lemma ascii_compare_consistent: "consistent_compare (localeCompare ascii)"
proof -
  have l: "localeCompare ascii = ascii_compare" by (simp add: ascii_def)
  have pos: "0 < ascii_compare a b \<longleftrightarrow> code_units b < code_units a" for a b
    using ascii_compare_sign [of a b] by (rule conjunct1)
  have le: "ascii_compare a b \<le> 0 \<longleftrightarrow> code_units a \<le> code_units b" for a b
    using ascii_compare_sign [of a b] by (rule conjunct2)
  show ?thesis
    unfolding consistent_compare_def l pos le
  proof (intro conjI allI impI)
    fix a b assume "code_units b < code_units a"
    then show "\<not> code_units a < code_units b" by (rule less_not_sym)
  next
    fix a b c assume "code_units a \<le> code_units b \<and> code_units b \<le> code_units c"
    then have "code_units a \<le> code_units b" "code_units b \<le> code_units c"
      by (rule conjunct1, rule conjunct2)
    then show "code_units a \<le> code_units c" by (rule order_trans)
  qed
qed


text \<open>
  The grimoire scenario: known spells Fireball and Unknown Spell against a catalog that
  holds only Fireball give \<open>spellsByLevel = {3: [Fireball]}\<close>.
\<close>

lemma prepare_gandalf:
  "prepareCharacterSpells ascii [wizard] [fireball] gandalf =
     \<lparr>cs_character = gandalf, cs_spells = [fireball], spellsByLevel = [(3, [fireball])],
      spellSlots = [\<lparr>slot_current = Num 4, slot_max = Num 4, slot_level = Num 1\<rparr>,
                    \<lparr>slot_current = Num 1, slot_max = Num 3, slot_level = Num 2\<rparr>],
      characterClass = None\<rparr>"
  by (simp add: prepareCharacterSpells_def Let_def resolve_known_def getSpellByName_def
      group_by_level_def push_by_level_def sort_buckets_def js_sort_def compare_slot_level_def
      gandalf_def fireball_def wizard_def ascii_def ascii_parseInt_def leading_digits_def
      digit_value_def decimal_def is_space_def)

theorem prepareCharacterSpells_aggregates_witness:
  "consistent_compare (localeCompare ascii)
   \<and> prepareCharacterSpells ascii [wizard] [fireball] gandalf =
       \<lparr>cs_character = gandalf, cs_spells = [fireball], spellsByLevel = [(3, [fireball])],
        spellSlots = [\<lparr>slot_current = Num 4, slot_max = Num 4, slot_level = Num 1\<rparr>,
                      \<lparr>slot_current = Num 1, slot_max = Num 3, slot_level = Num 2\<rparr>],
        characterClass = None\<rparr>
   \<and> spells_known gandalf = Some [KnownName ''Fireball'', KnownName ''Unknown Spell'']
   \<and> list_all (\<lambda>i. slot_level i \<noteq> NaN)
         [\<lparr>slot_current = Num 4, slot_max = Num 4, slot_level = Num 1\<rparr>,
          \<lparr>slot_current = Num 1, slot_max = Num 3, slot_level = Num 2\<rparr>]
   \<and> sorted_wrt (\<lambda>a b. level_le (slot_level a) (slot_level b))
         [\<lparr>slot_current = Num 4, slot_max = Num 4, slot_level = Num 1\<rparr>,
          \<lparr>slot_current = Num 1, slot_max = Num 3, slot_level = Num 2\<rparr>]"
  using prepareCharacterSpells_aggregates [OF ascii_compare_consistent, of "[wizard]" "[fireball]" gandalf]
  by (simp add: prepare_gandalf ascii_compare_consistent) (simp add: gandalf_def)

text \<open>
  A larger run: the unknown name is dropped, the two level-1 spells come out sorted by
  name, and only the two well-formed slot pairs are summarised.
\<close>

lemma prepare_sage:
  "prepareCharacterSpells ascii [wizard] [fireball, light, shield, mage_armor] sage =
     \<lparr>cs_character = sage, cs_spells = [shield, fireball, mage_armor, light],
      spellsByLevel = [(1, [mage_armor, shield]), (3, [fireball]), (0, [light])],
      spellSlots = [\<lparr>slot_current = Num 4, slot_max = Num 4, slot_level = Num 1\<rparr>,
                    \<lparr>slot_current = Num 1, slot_max = Num 3, slot_level = Num 2\<rparr>],
      characterClass = None\<rparr>"
  by (simp add: prepareCharacterSpells_def Let_def resolve_known_def getSpellByName_def
      group_by_level_def push_by_level_def sort_buckets_def js_sort_def compare_slot_level_def
      compare_name_def ascii_compare_def code_units_def
      sage_def gandalf_def fireball_def light_def shield_def mage_armor_def wizard_def
      ascii_def ascii_parseInt_def leading_digits_def digit_value_def decimal_def is_space_def)

section \<open>Slot adjustment and the remote store\<close>

text \<open>
  C9. When the detail view is open, the session is active and the level has an array
  entry, the handler sends the update; if the request throws or the store answers with
  a non-success status, the state (the character list and the detail view with its
  slot values) is exactly what it was and an error alert is shown. On a successful
  answer the character of the list and the detail view are both replaced by what the
  store returned. The state differs from the old one only after a successful answer.
\<close>

theorem updateSpellSlot_failure_keeps_state:
  assumes "selectedCharacter s = Some sel"
    and "getSession E = Returns (Some sess)"
    and "updated_slots P (cs_character sel) lvl type delta = Some currentSlots"
  shows "(fetch E (slot_request sess (cs_character sel) currentSlots) = Throws \<longrightarrow>
            updateSpellSlot P E s lvl type delta =
              (s, [Fetch (slot_request sess (cs_character sel) currentSlots),
                   AlertAlert Erro SlotsUpdateError]))
       \<and> (\<forall>body. fetch E (slot_request sess (cs_character sel) currentSlots)
                     = Returns (Response False body) \<longrightarrow>
            updateSpellSlot P E s lvl type delta =
              (s, [Fetch (slot_request sess (cs_character sel) currentSlots),
                   AlertAlert Erro SlotsNotUpdated]))
       \<and> (\<forall>updatedCharacter. fetch E (slot_request sess (cs_character sel) currentSlots)
                     = Returns (Response True (Some updatedCharacter)) \<longrightarrow>
            updateSpellSlot P E s lvl type delta =
              (s\<lparr>characters :=
                   map (\<lambda>char. if char_id char = char_id (cs_character sel)
                                then updatedCharacter else char) (characters s),
                 selectedCharacter :=
                   Some (prepareCharacterSpells P (classesData E) (allSpells s) updatedCharacter)\<rparr>,
               [Fetch (slot_request sess (cs_character sel) currentSlots)]))
       \<and> (fst (updateSpellSlot P E s lvl type delta) \<noteq> s \<longrightarrow>
            (\<exists>updatedCharacter. fetch E (slot_request sess (cs_character sel) currentSlots)
                     = Returns (Response True (Some updatedCharacter))))"
proof -
  let ?req = "slot_request sess (cs_character sel) currentSlots"
  have u: "updateSpellSlot P E s lvl type delta =
      (case fetch E ?req of
         Throws \<Rightarrow> (s, [Fetch ?req, AlertAlert Erro SlotsUpdateError])
       | Returns (Response False body) \<Rightarrow> (s, [Fetch ?req, AlertAlert Erro SlotsNotUpdated])
       | Returns (Response True None) \<Rightarrow> (s, [Fetch ?req, AlertAlert Erro SlotsUpdateError])
       | Returns (Response True (Some updatedCharacter)) \<Rightarrow>
           (s\<lparr>characters :=
                map (\<lambda>char. if char_id char = char_id (cs_character sel)
                             then updatedCharacter else char) (characters s),
              selectedCharacter :=
                Some (prepareCharacterSpells P (classesData E) (allSpells s) updatedCharacter)\<rparr>,
            [Fetch ?req]))"
    using assms by (simp add: updateSpellSlot_def Let_def)
  show ?thesis
    unfolding u
    by (cases "fetch E ?req")
      (auto split: response.splits bool.splits option.splits)
qed


text \<open>Runs of the handler on Gandalf's open detail view, lowering the current slots of level 1.\<close>

lemma cs_character_prepare:
  "cs_character (prepareCharacterSpells P classList catalog c) = c"
  by (simp add: prepareCharacterSpells_def Let_def)

lemma updated_slots_gandalf:
  "updated_slots ascii gandalf (Num 1) Current (Num (- 1)) =
     Some [(''1'', SlotArray [Num 3, Num 4]), (''2'', SlotArray [Num 1, Num 3])]"
  by (simp add: updated_slots_def gandalf_def ascii_def digits.simps adjust_slots_def
      arr_get_def arr_set_def)

lemma updateSpellSlot_gandalf:
  "updateSpellSlot ascii E grimoire_open (Num 1) Current (Num (- 1)) =
     (case getSession E of
        Throws \<Rightarrow> (grimoire_open, [AlertAlert Erro SlotsUpdateError])
      | Returns None \<Rightarrow> (grimoire_open, [AlertAlert Erro NeedsAuth])
      | Returns (Some sess) \<Rightarrow>
          (let req = slot_request sess gandalf
                       [(''1'', SlotArray [Num 3, Num 4]), (''2'', SlotArray [Num 1, Num 3])]
           in case fetch E req of
                Throws \<Rightarrow> (grimoire_open, [Fetch req, AlertAlert Erro SlotsUpdateError])
              | Returns (Response False body) \<Rightarrow>
                  (grimoire_open, [Fetch req, AlertAlert Erro SlotsNotUpdated])
              | Returns (Response True None) \<Rightarrow>
                  (grimoire_open, [Fetch req, AlertAlert Erro SlotsUpdateError])
              | Returns (Response True (Some updatedCharacter)) \<Rightarrow>
                  (grimoire_open\<lparr>characters :=
                       map (\<lambda>char. if char_id char = ''c1'' then updatedCharacter else char)
                         [gandalf, apprentice],
                     selectedCharacter :=
                       Some (prepareCharacterSpells ascii (classesData E) [fireball]
                               updatedCharacter)\<rparr>,
                   [Fetch req])))"
proof -
  have sel: "selectedCharacter grimoire_open =
      Some (prepareCharacterSpells ascii [wizard] [fireball] gandalf)"
    by (simp add: grimoire_open_def)
  have st: "characters grimoire_open = [gandalf, apprentice]" "allSpells grimoire_open = [fireball]"
    by (simp_all add: grimoire_open_def grimoire_def)
  have id: "char_id gandalf = ''c1''" by (simp add: gandalf_def)
  show ?thesis
    unfolding updateSpellSlot_def sel option.case cs_character_prepare updated_slots_gandalf st id
    by (rule refl)
qed

theorem updateSpellSlot_failure_keeps_state_witness:
  "selectedCharacter grimoire_open = Some (prepareCharacterSpells ascii [wizard] [fireball] gandalf)
   \<and> getSession offline = Returns (Some \<lparr>access_token = ''token''\<rparr>)
   \<and> updated_slots ascii gandalf (Num 1) Current (Num (- 1)) =
        Some [(''1'', SlotArray [Num 3, Num 4]), (''2'', SlotArray [Num 1, Num 3])]
   \<and> updateSpellSlot ascii offline grimoire_open (Num 1) Current (Num (- 1)) =
        (grimoire_open,
         [Fetch (slot_request \<lparr>access_token = ''token''\<rparr> gandalf
                   [(''1'', SlotArray [Num 3, Num 4]), (''2'', SlotArray [Num 1, Num 3])]),
          AlertAlert Erro SlotsUpdateError])
   \<and> updateSpellSlot ascii refusing grimoire_open (Num 1) Current (Num (- 1)) =
        (grimoire_open,
         [Fetch (slot_request \<lparr>access_token = ''token''\<rparr> gandalf
                   [(''1'', SlotArray [Num 3, Num 4]), (''2'', SlotArray [Num 1, Num 3])]),
          AlertAlert Erro SlotsNotUpdated])
   \<and> fst (updateSpellSlot ascii online grimoire_open (Num 1) Current (Num (- 1))) \<noteq> grimoire_open
   \<and> fetch online (slot_request \<lparr>access_token = ''token''\<rparr> gandalf
                   [(''1'', SlotArray [Num 3, Num 4]), (''2'', SlotArray [Num 1, Num 3])]) =
        Returns (Response True (Some (gandalf\<lparr>spell_slots :=
           Some [(''1'', SlotArray [Num 3, Num 4]), (''2'', SlotArray [Num 1, Num 3])]\<rparr>)))"
proof -
  let ?sel = "prepareCharacterSpells ascii [wizard] [fireball] gandalf"
  let ?m = "[(''1'', SlotArray [Num 3, Num 4]), (''2'', SlotArray [Num 1, Num 3])]"
  let ?sess = "\<lparr>access_token = ''token''\<rparr>"
  have sel: "selectedCharacter grimoire_open = Some ?sel" by (simp add: grimoire_open_def)
  have sess: "getSession offline = Returns (Some ?sess)" "getSession refusing = Returns (Some ?sess)"
    "getSession online = Returns (Some ?sess)"
    by (simp_all add: offline_def refusing_def online_def)
  have upd: "updated_slots ascii (cs_character ?sel) (Num 1) Current (Num (- 1)) = Some ?m"
    by (simp only: cs_character_prepare updated_slots_gandalf)
  have f: "fetch offline (slot_request ?sess gandalf ?m) = Throws"
    "fetch refusing (slot_request ?sess gandalf ?m) = Returns (Response False None)"
    "fetch online (slot_request ?sess gandalf ?m) =
       Returns (Response True (Some (gandalf\<lparr>spell_slots := Some ?m\<rparr>)))"
    by (simp_all add: offline_def refusing_def online_def store_update_def slot_request_def)
  have ids: "char_id gandalf = ''c1''" "char_id apprentice \<noteq> ''c1''"
    by (simp_all add: gandalf_def apprentice_def)
  have run: "updateSpellSlot ascii online grimoire_open (Num 1) Current (Num (- 1)) =
      (grimoire_open\<lparr>characters := [gandalf\<lparr>spell_slots := Some ?m\<rparr>, apprentice],
         selectedCharacter :=
           Some (prepareCharacterSpells ascii (classesData online) [fireball]
                   (gandalf\<lparr>spell_slots := Some ?m\<rparr>))\<rparr>,
       [Fetch (slot_request ?sess gandalf ?m)])"
    by (simp add: updateSpellSlot_gandalf sess f Let_def ids)
  have "characters (fst (updateSpellSlot ascii online grimoire_open (Num 1) Current (Num (- 1))))
      \<noteq> characters grimoire_open"
    by (simp add: run) (simp add: grimoire_open_def grimoire_def gandalf_def)
  then have changed: "fst (updateSpellSlot ascii online grimoire_open (Num 1) Current (Num (- 1)))
      \<noteq> grimoire_open"
    by (rule contrapos_nn) (erule arg_cong)
  note t1 = updateSpellSlot_failure_keeps_state [OF sel sess(1) upd]
    and t2 = updateSpellSlot_failure_keeps_state [OF sel sess(2) upd]
    and t3 = updateSpellSlot_failure_keeps_state [OF sel sess(3) upd]
  show ?thesis
    using t1 t2 t3 changed
    by (simp add: sel sess updated_slots_gandalf cs_character_prepare f)
qed


section \<open>What a slot adjustment leaves alone\<close>

lemma updated_slots_frame:
  assumes "spell_slots c = Some m"
    and "map_of m (toString P lvl) = Some (SlotArray slots)"
  shows "updated_slots P c lvl type delta =
           Some (AList.update (toString P lvl) (SlotArray (adjust_slots type delta slots)) m)"
    and "map fst (AList.update (toString P lvl) v m) = map fst m"
    and "k \<noteq> toString P lvl \<Longrightarrow> map_of (AList.update (toString P lvl) v m) k = map_of m k"
proof -
  show "updated_slots P c lvl type delta =
           Some (AList.update (toString P lvl) (SlotArray (adjust_slots type delta slots)) m)"
    using assms by (simp add: updated_slots_def)
  have "(toString P lvl, SlotArray slots) \<in> set m"
    using assms(2) by (rule map_of_SomeD)
  then have "toString P lvl \<in> fst ` set m" by force
  then show "map fst (AList.update (toString P lvl) v m) = map fst m"
    by (simp add: update_keys)
  show "map_of (AList.update (toString P lvl) v m) k = map_of m k" if "k \<noteq> toString P lvl"
    using that by (simp add: update_conv')
qed

text \<open>
  C10. When the detail view is open, the session is active and the selected character's
  \<open>spell_slots\<close> has an array under the key of level \<open>lvl\<close>, the handler's first effect
  is one update request whose body has the single field \<open>spell_slots\<close>; the slot object
  sent has the same keys in the same order, and under every key other than that of \<open>lvl\<close>
  the value it had. When the store answers with the character so updated (the selected
  character with \<open>spell_slots\<close> replaced and every other field as it was), the list entry
  of that character and the detail view are refreshed to it, and every other character
  of the list is untouched.
\<close>

theorem updateSpellSlot_frame:
  assumes "selectedCharacter s = Some sel"
    and "getSession E = Returns (Some sess)"
    and "spell_slots (cs_character sel) = Some m"
    and "map_of m (toString P lvl) = Some (SlotArray slots)"
  shows "\<exists>m' effs.
       snd (updateSpellSlot P E s lvl type delta) =
         Fetch (slot_request sess (cs_character sel) m') # effs
     \<and> req_body (slot_request sess (cs_character sel) m') = [(''spell_slots'', SlotsValue m')]
     \<and> map fst m' = map fst m
     \<and> (\<forall>k. k \<noteq> toString P lvl \<longrightarrow> map_of m' k = map_of m k)
     \<and> (fetch E (slot_request sess (cs_character sel) m') =
           Returns (Response True (Some ((cs_character sel)\<lparr>spell_slots := Some m'\<rparr>))) \<longrightarrow>
         fst (updateSpellSlot P E s lvl type delta) =
           s\<lparr>characters :=
                map (\<lambda>char. if char_id char = char_id (cs_character sel)
                             then (cs_character sel)\<lparr>spell_slots := Some m'\<rparr> else char)
                  (characters s),
              selectedCharacter :=
                Some (prepareCharacterSpells P (classesData E) (allSpells s)
                        ((cs_character sel)\<lparr>spell_slots := Some m'\<rparr>))\<rparr>)"
proof -
  define m' where "m' = AList.update (toString P lvl) (SlotArray (adjust_slots type delta slots)) m"
  let ?req = "slot_request sess (cs_character sel) m'"
  have upd: "updated_slots P (cs_character sel) lvl type delta = Some m'"
    unfolding m'_def using assms(3,4) by (rule updated_slots_frame(1))
  have keys: "map fst m' = map fst m"
    unfolding m'_def using assms(3,4) by (rule updated_slots_frame(2))
  have others: "\<forall>k. k \<noteq> toString P lvl \<longrightarrow> map_of m' k = map_of m k"
    unfolding m'_def using updated_slots_frame(3) [OF assms(3,4)] by blast
  have body: "req_body ?req = [(''spell_slots'', SlotsValue m')]"
    by (simp add: slot_request_def)
  have u: "updateSpellSlot P E s lvl type delta =
      (case fetch E ?req of
         Throws \<Rightarrow> (s, [Fetch ?req, AlertAlert Erro SlotsUpdateError])
       | Returns (Response False body) \<Rightarrow> (s, [Fetch ?req, AlertAlert Erro SlotsNotUpdated])
       | Returns (Response True None) \<Rightarrow> (s, [Fetch ?req, AlertAlert Erro SlotsUpdateError])
       | Returns (Response True (Some updatedCharacter)) \<Rightarrow>
           (s\<lparr>characters :=
                map (\<lambda>char. if char_id char = char_id (cs_character sel)
                             then updatedCharacter else char) (characters s),
              selectedCharacter :=
                Some (prepareCharacterSpells P (classesData E) (allSpells s) updatedCharacter)\<rparr>,
            [Fetch ?req]))"
    using assms(1,2) upd by (simp add: updateSpellSlot_def Let_def)
  have first: "\<exists>effs. snd (updateSpellSlot P E s lvl type delta) = Fetch ?req # effs"
    unfolding u by (cases "fetch E ?req") (auto split: response.splits bool.splits option.splits)
  have refreshed: "fetch E ?req =
           Returns (Response True (Some ((cs_character sel)\<lparr>spell_slots := Some m'\<rparr>))) \<longrightarrow>
         fst (updateSpellSlot P E s lvl type delta) =
           s\<lparr>characters :=
                map (\<lambda>char. if char_id char = char_id (cs_character sel)
                             then (cs_character sel)\<lparr>spell_slots := Some m'\<rparr> else char)
                  (characters s),
              selectedCharacter :=
                Some (prepareCharacterSpells P (classesData E) (allSpells s)
                        ((cs_character sel)\<lparr>spell_slots := Some m'\<rparr>))\<rparr>"
    unfolding u by simp
  from first obtain effs
    where "snd (updateSpellSlot P E s lvl type delta) = Fetch ?req # effs" ..
  with body keys others refreshed show ?thesis by blast
qed

theorem updateSpellSlot_frame_witness:
  "selectedCharacter grimoire_open = Some (prepareCharacterSpells ascii [wizard] [fireball] gandalf)
   \<and> getSession online = Returns (Some \<lparr>access_token = ''token''\<rparr>)
   \<and> spell_slots gandalf = Some [(''1'', SlotArray [Num 4, Num 4]), (''2'', SlotArray [Num 1, Num 3])]
   \<and> map_of [(''1'', SlotArray [Num 4, Num 4]), (''2'', SlotArray [Num 1, Num 3])]
        (toString ascii (Num 1)) = Some (SlotArray [Num 4, Num 4])
   \<and> ''2'' \<noteq> toString ascii (Num 1)
   \<and> updateSpellSlot ascii online grimoire_open (Num 1) Current (Num (- 1)) =
        (grimoire_open\<lparr>characters :=
             [gandalf\<lparr>spell_slots :=
                Some [(''1'', SlotArray [Num 3, Num 4]), (''2'', SlotArray [Num 1, Num 3])]\<rparr>,
              apprentice],
           selectedCharacter :=
             Some (prepareCharacterSpells ascii [wizard] [fireball]
                     (gandalf\<lparr>spell_slots :=
                        Some [(''1'', SlotArray [Num 3, Num 4]), (''2'', SlotArray [Num 1, Num 3])]\<rparr>))\<rparr>,
         [Fetch \<lparr>req_method = ''PUT'', req_url = ''/api/characters/c1'',
                 req_headers = [(''Authorization'', ''Bearer token''),
                                (''Content-Type'', ''application/json'')],
                 req_body = [(''spell_slots'',
                   SlotsValue [(''1'', SlotArray [Num 3, Num 4]), (''2'', SlotArray [Num 1, Num 3])])]\<rparr>])"
proof -
  let ?sel = "prepareCharacterSpells ascii [wizard] [fireball] gandalf"
  let ?m = "[(''1'', SlotArray [Num 3, Num 4]), (''2'', SlotArray [Num 1, Num 3])]"
  let ?sess = "\<lparr>access_token = ''token''\<rparr>"
  have sel: "selectedCharacter grimoire_open = Some ?sel" by (simp add: grimoire_open_def)
  have sess: "getSession online = Returns (Some ?sess)"
    by (simp add: offline_def online_def)
  have slots: "spell_slots (cs_character ?sel) =
      Some [(''1'', SlotArray [Num 4, Num 4]), (''2'', SlotArray [Num 1, Num 3])]"
    by (simp add: cs_character_prepare gandalf_def)
  have key: "toString ascii (Num 1) = ''1''" by (simp add: ascii_def digits.simps)
  have at: "map_of [(''1'', SlotArray [Num 4, Num 4]), (''2'', SlotArray [Num 1, Num 3])]
        (toString ascii (Num 1)) = Some (SlotArray [Num 4, Num 4])"
    by (simp add: key)
  have f: "fetch online (slot_request ?sess gandalf ?m) =
       Returns (Response True (Some (gandalf\<lparr>spell_slots := Some ?m\<rparr>)))"
    by (simp add: offline_def online_def store_update_def slot_request_def)
  have ids: "char_id gandalf = ''c1''" "char_id apprentice \<noteq> ''c1''"
    by (simp_all add: gandalf_def apprentice_def)
  have cd: "classesData online = [wizard]" by (simp add: offline_def online_def)
  have run: "updateSpellSlot ascii online grimoire_open (Num 1) Current (Num (- 1)) =
      (grimoire_open\<lparr>characters := [gandalf\<lparr>spell_slots := Some ?m\<rparr>, apprentice],
         selectedCharacter :=
           Some (prepareCharacterSpells ascii [wizard] [fireball]
                   (gandalf\<lparr>spell_slots := Some ?m\<rparr>))\<rparr>,
       [Fetch (slot_request ?sess gandalf ?m)])"
    by (simp add: updateSpellSlot_gandalf sess f Let_def ids cd)
  have req: "slot_request ?sess gandalf ?m =
       \<lparr>req_method = ''PUT'', req_url = ''/api/characters/c1'',
        req_headers = [(''Authorization'', ''Bearer token''),
                       (''Content-Type'', ''application/json'')],
        req_body = [(''spell_slots'', SlotsValue ?m)]\<rparr>"
    by (simp add: slot_request_def gandalf_def)
  note t = updateSpellSlot_frame [OF sel sess slots at, of Current "Num (- 1)"]
  show ?thesis
    using t by (simp add: sel sess run req key) (simp add: gandalf_def)
qed


end
